theory Spec2Isabelle
  imports Complex_Main "HOL-Library.Char_ord" "HOL-Library.List_Lexorder" "HOL-Library.Multiset"
    "HOL-Library.Word"
begin

section \<open>Data model of the handlers package\<close>

text \<open>
  Go strings are byte sequences; \<^typ>\<open>string\<close> is a list of 8-bit characters, and with
  \<open>Char_ord\<close> and \<open>List_Lexorder\<close> the order \<open><\<close> on \<^typ>\<open>string\<close> is Go's bytewise
  lexicographic string comparison. A \<open>float64\<close> is modelled as a real number; a Go
  \<open>int\<close> as an integer, with the 64-bit wrap-around written out where it can occur.
\<close>

record ProjectInfo =
  ProjectID :: string
  ProjectName :: string

record UserInfo =
  UserID :: string
  Username :: string
  Name :: string

record TaskStatus =
  Column :: string
  Swimlane :: string

record TaskDates =
  Created :: string
  Due :: string
  Modified :: string
  Started :: string

record TimeTracking =
  EstimatedHours :: real
  SpentHours :: real
  RemainingHours :: real

record TaskDetail =
  ID :: string
  Title :: string
  Description :: string
  Project :: ProjectInfo
  Assignee :: "UserInfo option"
  Status :: TaskStatus
  Dates :: TaskDates
  TimeTracking :: "TimeTracking option"
  Priority :: string
  Category :: string
  Tags :: "string list"
  URL :: string
  IsOverdue :: bool
  DaysUntilDue :: "int option"

text \<open>A record for the concrete evaluations below: an unassigned task without dates.\<close>

definition sampleTask :: TaskDetail where
  "sampleTask =
     \<lparr>ID = ''1'', Title = ''Write report'', Description = '''',
      Project = \<lparr>ProjectID = ''1'', ProjectName = ''Alpha''\<rparr>,
      Assignee = None,
      Status = \<lparr>Column = ''Backlog'', Swimlane = ''Default''\<rparr>,
      Dates = \<lparr>Created = '''', Due = '''', Modified = '''', Started = ''''\<rparr>,
      TimeTracking = None, Priority = ''normal'', Category = '''', Tags = [],
      URL = '''', IsOverdue = False, DaysUntilDue = None\<rparr>"

section \<open>Completion predicates\<close>

subsection \<open>\<open>strings.EqualFold\<close> against an ASCII word\<close>

text \<open>
  \<open>strings.EqualFold s t\<close> walks both strings rune by rune and accepts a pair of runes
  when they are equal, when they are the two cases of one ASCII letter, or when
  \<open>unicode.SimpleFold\<close> leads from one to the other. The only non-ASCII runes in the
  fold orbit of an ASCII letter are U+017F (long s, UTF-8 bytes C5 BF, orbit S s U+017F)
  and U+212A (Kelvin sign, bytes E2 84 AA, orbit K k U+212A). The function below is that
  walk for a second argument made of ASCII bytes, which is how both handlers call it
  (the second argument is a word of the completed-column vocabulary); a byte of \<open>s\<close>
  from 0x80 on that does not start one of the two sequences decodes to a rune outside
  every ASCII orbit, and the walk returns false there.
\<close>

definition asciiCasePair :: "char \<Rightarrow> char \<Rightarrow> bool" where
  "asciiCasePair sr tr =
     (let lo = min (of_char sr :: nat) (of_char tr); hi = max (of_char sr :: nat) (of_char tr)
      in 65 \<le> lo \<and> lo \<le> 90 \<and> hi = lo + 32)"

fun EqualFold :: "string \<Rightarrow> string \<Rightarrow> bool" where
  "EqualFold [] t = (t = [])"
| "EqualFold (sr # s) [] = False"
| "EqualFold (sr # s) (tr # t) =
     (if (of_char sr :: nat) < 128 then
        (if tr = sr \<or> asciiCasePair sr tr then EqualFold s t else False)
      else if sr = CHR 0xC5 \<and> take 1 s = [CHR 0xBF] then
        (if tr = CHR ''s'' \<or> tr = CHR ''S'' then EqualFold (drop 1 s) t else False)
      else if sr = CHR 0xE2 \<and> take 2 s = [CHR 0x84, CHR 0xAA] then
        (if tr = CHR ''k'' \<or> tr = CHR ''K'' then EqualFold (drop 2 s) t else False)
      else False)"

subsection \<open>The two \<open>isTaskCompleted\<close> methods\<close>

definition completedColumns :: "string list" where
  "completedColumns = [''Done'', ''Completed'', ''Closed'', ''Finished'']"

text \<open>\<open>TasksHandler.isTaskCompleted\<close> (tasks.go): the first vocabulary word that folds to the column name wins.\<close>

fun anyEqualFold :: "string \<Rightarrow> string list \<Rightarrow> bool" where
  "anyEqualFold c [] = False"
| "anyEqualFold c (col # cols) = (if EqualFold c col then True else anyEqualFold c cols)"

definition TasksHandler_isTaskCompleted :: "TaskDetail \<Rightarrow> bool" where
  "TasksHandler_isTaskCompleted task = anyEqualFold (Column (Status task)) completedColumns"

text \<open>\<open>AnalyticsHandler.isTaskCompleted\<close>: the same loop with \<open>==\<close> on the strings.\<close>

fun anyEqual :: "string \<Rightarrow> string list \<Rightarrow> bool" where
  "anyEqual c [] = False"
| "anyEqual c (col # cols) = (if c = col then True else anyEqual c cols)"

definition AnalyticsHandler_isTaskCompleted :: "TaskDetail \<Rightarrow> bool" where
  "AnalyticsHandler_isTaskCompleted task = anyEqual (Column (Status task)) completedColumns"

subsection \<open>Case-insensitive equality, as the specification words it\<close>

text \<open>
  Two names are equal up to case when they have the same simple case folding: every
  rune is replaced by the representative of its fold orbit (the lower-case ASCII letter
  for an ASCII letter, \<open>s\<close> for U+017F, \<open>k\<close> for U+212A), every other byte is kept.
\<close>

definition toLowerASCII :: "char \<Rightarrow> char" where
  "toLowerASCII c = (if 65 \<le> (of_char c :: nat) \<and> (of_char c :: nat) \<le> 90
                     then char_of ((of_char c :: nat) + 32) else c)"

fun caseFold :: "string \<Rightarrow> string" where
  "caseFold [] = []"
| "caseFold (c # s) =
     (if c = CHR 0xC5 \<and> take 1 s = [CHR 0xBF] then CHR ''s'' # caseFold (drop 1 s)
      else if c = CHR 0xE2 \<and> take 2 s = [CHR 0x84, CHR 0xAA] then CHR ''k'' # caseFold (drop 2 s)
      else toLowerASCII c # caseFold s)"

definition caseInsensitiveEq :: "string \<Rightarrow> string \<Rightarrow> bool" where
  "caseInsensitiveEq a b = (caseFold a = caseFold b)"

definition isASCII :: "string \<Rightarrow> bool" where
  "isASCII t = list_all (\<lambda>c. (of_char c :: nat) < 128) t"


section \<open>The \<open>time\<close> package, as far as the handlers use it\<close>

text \<open>
  A \<open>time.Time\<close> is an instant together with a location. The instant is kept in
  nanoseconds since the Unix epoch (unbounded, as Go keeps seconds and nanoseconds
  apart), the location as a fixed offset in seconds east of UTC. \<open>time.Now()\<close> is an
  argument \<open>now\<close> of every function that reads the clock.

  A \<open>time.Duration\<close> is a signed 64-bit count of nanoseconds; \<open>Sub\<close> saturates at
  its bounds. \<open>Hours\<close> returns a \<open>float64\<close>: the model computes the quotient
  exactly, which differs from the rounded one only when a duration lies within
  rounding distance of a boundary; the sign is never affected.
\<close>

record Time =
  unixNano :: int
  zoneOffset :: int

definition IsZero :: "Time \<Rightarrow> bool" where
  "IsZero t = (unixNano t = - 62135596800 * 1000000000)"

definition Before :: "Time \<Rightarrow> Time \<Rightarrow> bool" where
  "Before t u = (unixNano t < unixNano u)"

definition After :: "Time \<Rightarrow> Time \<Rightarrow> bool" where
  "After t u = (unixNano t > unixNano u)"

definition Equal :: "Time \<Rightarrow> Time \<Rightarrow> bool" where
  "Equal t u = (unixNano t = unixNano u)"

definition maxDuration :: int where
  "maxDuration = 9223372036854775807"

definition minDuration :: int where
  "minDuration = - 9223372036854775808"

definition Sub :: "Time \<Rightarrow> Time \<Rightarrow> int" where
  "Sub t u = max minDuration (min maxDuration (unixNano t - unixNano u))"

definition Hours :: "int \<Rightarrow> real" where
  "Hours d = real_of_int d / 3600000000000"

text \<open>The conversion \<open>int(x)\<close> of a float truncates toward zero.\<close>

definition goInt :: "real \<Rightarrow> int" where
  "goInt x = (if 0 \<le> x then \<lfloor>x\<rfloor> else \<lceil>x\<rceil>)"

subsection \<open>The proleptic Gregorian calendar\<close>

definition daysFromCivil :: "int \<Rightarrow> int \<Rightarrow> int \<Rightarrow> int" where
  "daysFromCivil y m d =
     (let y' = (if m \<le> 2 then y - 1 else y);
          era = y' div 400;
          yoe = y' - era * 400;
          doy = (153 * (if m > 2 then m - 3 else m + 9) + 2) div 5 + d - 1;
          doe = yoe * 365 + yoe div 4 - yoe div 100 + doy
      in era * 146097 + doe - 719468)"

definition civilFromDays :: "int \<Rightarrow> int \<times> int \<times> int" where
  "civilFromDays z0 =
     (let z = z0 + 719468;
          era = z div 146097;
          doe = z - era * 146097;
          yoe = (doe - doe div 1460 + doe div 36524 - doe div 146096) div 365;
          doy = doe - (365 * yoe + yoe div 4 - yoe div 100);
          mp = (5 * doy + 2) div 153;
          d = doy - (153 * mp + 2) div 5 + 1;
          m = (if mp < 10 then mp + 3 else mp - 9);
          y = yoe + era * 400 + (if m \<le> 2 then 1 else 0)
      in (y, m, d))"

definition isLeap :: "int \<Rightarrow> bool" where
  "isLeap y = (y mod 4 = 0 \<and> (y mod 100 \<noteq> 0 \<or> y mod 400 = 0))"

definition daysIn :: "int \<Rightarrow> int \<Rightarrow> int" where
  "daysIn m y =
     (if m = 2 then (if isLeap y then 29 else 28)
      else if m = 4 \<or> m = 6 \<or> m = 9 \<or> m = 11 then 30 else 31)"

text \<open>
  \<open>time.Date\<close> in a fixed-offset location: the month is normalised into the year, the
  day and the clock fields count on linearly.
\<close>

definition Date :: "int \<Rightarrow> int \<Rightarrow> int \<Rightarrow> int \<Rightarrow> int \<Rightarrow> int \<Rightarrow> int \<Rightarrow> int \<Rightarrow> Time" where
  "Date year month day hour minute sec nsec off =
     (let m0 = month - 1;
          y1 = year + m0 div 12;
          m1 = m0 mod 12 + 1;
          days = daysFromCivil y1 m1 1 + (day - 1);
          wall = days * 86400 + hour * 3600 + minute * 60 + sec
      in \<lparr>unixNano = (wall - off) * 1000000000 + nsec, zoneOffset = off\<rparr>)"

definition wallSeconds :: "Time \<Rightarrow> int" where
  "wallSeconds t = unixNano t div 1000000000 + zoneOffset t"

definition AddDate :: "Time \<Rightarrow> int \<Rightarrow> int \<Rightarrow> int \<Rightarrow> Time" where
  "AddDate t years months days =
     (let (y, m, d) = civilFromDays (wallSeconds t div 86400);
          sod = wallSeconds t mod 86400
      in Date (y + years) (m + months) (d + days) (sod div 3600) (sod mod 3600 div 60) (sod mod 60)
           (unixNano t mod 1000000000) (zoneOffset t))"

subsection \<open>Formatting with the layout \<open>2006-01-02T15:04:05Z\<close>\<close>

function showNat :: "nat \<Rightarrow> string" where
  "showNat n = (if n < 10 then [char_of (48 + n)] else showNat (n div 10) @ [char_of (48 + n mod 10)])"
  by pat_completeness auto
termination
  by (relation "measure id") auto

declare showNat.simps [simp del]

text \<open>\<open>appendInt\<close>: the sign, then the digits padded with zeros to the width.\<close>

definition appendInt :: "int \<Rightarrow> nat \<Rightarrow> string" where
  "appendInt x width =
     (let ds = showNat (nat \<bar>x\<bar>)
      in (if x < 0 then ''-'' else '''') @ replicate (width - length ds) (CHR ''0'') @ ds)"

text \<open>\<open>fmt.Sprintf("%d", n)\<close>.\<close>

definition showInt :: "int \<Rightarrow> string" where
  "showInt x = (if x < 0 then ''-'' else '''') @ showNat (nat \<bar>x\<bar>)"

text \<open>
  In the layout the final \<open>Z\<close> is a literal (it is not followed by a zone pattern), so
  the wall clock of the time's own location is printed and followed by the letter Z.
\<close>

definition FormatDateTime :: "Time \<Rightarrow> string" where
  "FormatDateTime t =
     (let (y, m, d) = civilFromDays (wallSeconds t div 86400);
          sod = wallSeconds t mod 86400
      in appendInt y 4 @ ''-'' @ appendInt m 2 @ ''-'' @ appendInt d 2 @ ''T'' @
         appendInt (sod div 3600) 2 @ '':'' @ appendInt (sod mod 3600 div 60) 2 @ '':'' @
         appendInt (sod mod 60) 2 @ ''Z'')"

subsection \<open>Parsing with the layouts \<open>2006-01-02T15:04:05Z\<close> and \<open>2006-01-02\<close>\<close>

definition isDigit :: "char \<Rightarrow> bool" where
  "isDigit c = (48 \<le> (of_char c :: nat) \<and> (of_char c :: nat) \<le> 57)"

definition digitVal :: "char \<Rightarrow> int" where
  "digitVal c = int (of_char c) - 48"

definition digitsVal :: "string \<Rightarrow> int" where
  "digitsVal ds = foldl (\<lambda>a c. a * 10 + digitVal c) 0 ds"

text \<open>\<open>getnum\<close>: one or two digits; with \<open>fixed\<close> exactly two.\<close>

definition getnum :: "string \<Rightarrow> bool \<Rightarrow> (int \<times> string) option" where
  "getnum s fixed =
     (case s of
        [] \<Rightarrow> None
      | c # r \<Rightarrow>
          if \<not> isDigit c then None
          else (case r of
                  [] \<Rightarrow> (if fixed then None else Some (digitVal c, r))
                | c2 # r2 \<Rightarrow>
                    if \<not> isDigit c2 then (if fixed then None else Some (digitVal c, r))
                    else Some (digitVal c * 10 + digitVal c2, r2)))"

text \<open>The year \<open>2006\<close>: exactly four digits.\<close>

definition getYear :: "string \<Rightarrow> (int \<times> string) option" where
  "getYear s =
     (if length s < 4 \<or> \<not> list_all isDigit (take 4 s) then None
      else Some (digitsVal (take 4 s), drop 4 s))"

definition skipLit :: "char \<Rightarrow> string \<Rightarrow> string option" where
  "skipLit c s = (case s of [] \<Rightarrow> None | x # r \<Rightarrow> if x = c then Some r else None)"

text \<open>
  After the seconds \<open>Parse\<close> accepts a fractional second that the layout does not
  mention: a period or comma and digits, of which the first nine count.
\<close>

definition getFraction :: "string \<Rightarrow> int \<times> string" where
  "getFraction s =
     (case s of
        c # c2 # r \<Rightarrow>
          if (c = CHR ''.'' \<or> c = CHR '','') \<and> isDigit c2 then
            (let ds = take 9 (takeWhile isDigit (c2 # r))
             in (digitsVal ds * 10 ^ (9 - length ds), dropWhile isDigit (c2 # r)))
          else (0, s)
      | _ \<Rightarrow> (0, s))"

definition getDate :: "string \<Rightarrow> ((int \<times> int \<times> int) \<times> string) option" where
  "getDate s0 =
     (case getYear s0 of None \<Rightarrow> None | Some (year, s1) \<Rightarrow>
      case skipLit (CHR ''-'') s1 of None \<Rightarrow> None | Some s2 \<Rightarrow>
      case getnum s2 True of None \<Rightarrow> None | Some (month, s3) \<Rightarrow>
      if month \<le> 0 \<or> 12 < month then None else
      case skipLit (CHR ''-'') s3 of None \<Rightarrow> None | Some s4 \<Rightarrow>
      case getnum s4 True of None \<Rightarrow> None | Some (day, s5) \<Rightarrow>
      Some ((year, month, day), s5))"

definition parseDate :: "string \<Rightarrow> Time option" where
  "parseDate s0 =
     (case getDate s0 of None \<Rightarrow> None | Some ((year, month, day), s1) \<Rightarrow>
      if s1 \<noteq> [] then None
      else if day < 1 \<or> daysIn month year < day then None
      else Some (Date year month day 0 0 0 0 0))"

definition parseDateTime :: "string \<Rightarrow> Time option" where
  "parseDateTime s0 =
     (case getDate s0 of None \<Rightarrow> None | Some ((year, month, day), s1) \<Rightarrow>
      case skipLit (CHR ''T'') s1 of None \<Rightarrow> None | Some s2 \<Rightarrow>
      case getnum s2 False of None \<Rightarrow> None | Some (hour, s3) \<Rightarrow>
      if 24 \<le> hour then None else
      case skipLit (CHR '':'') s3 of None \<Rightarrow> None | Some s4 \<Rightarrow>
      case getnum s4 True of None \<Rightarrow> None | Some (minute, s5) \<Rightarrow>
      if 60 \<le> minute then None else
      case skipLit (CHR '':'') s5 of None \<Rightarrow> None | Some s6 \<Rightarrow>
      case getnum s6 True of None \<Rightarrow> None | Some (sec, s7) \<Rightarrow>
      if 60 \<le> sec then None else
      case getFraction s7 of (nsec, s8) \<Rightarrow>
      case skipLit (CHR ''Z'') s8 of None \<Rightarrow> None | Some s9 \<Rightarrow>
      if s9 \<noteq> [] then None
      else if day < 1 \<or> daysIn month year < day then None
      else Some (Date year month day hour minute sec nsec 0))"

section \<open>\<open>sort.Slice\<close>: the pattern-defeating quicksort of package \<open>sort\<close>\<close>

text \<open>
  \<open>sort.Slice(x, lt)\<close> runs \<open>pdqsort_func\<close> on the whole slice with the limit
  \<open>bits.Len(length)\<close>. The slice is a list; \<open>data.Less(i, j)\<close> is \<open>lt (d ! i) (d ! j)\<close>
  and \<open>data.Swap(i, j)\<close> is \<open>swap d i j\<close>. Indices are natural numbers; where the Go
  code lets an index \<open>j\<close> step below the range, the model carries \<open>j + 1\<close> (called
  \<open>jx\<close>) instead, so that \<open>i \<le> j\<close> reads \<open>i < jx\<close>.
\<close>

definition swap :: "'a list \<Rightarrow> nat \<Rightarrow> nat \<Rightarrow> 'a list" where
  "swap d i j = d[i := d ! j, j := d ! i]"

subsection \<open>Insertion sort and heap sort on \<open>data[a:b]\<close>\<close>

text \<open>The inner loop \<open>for j := i; j > a && lt(j, j-1); j--\<close>.\<close>

fun insertDown :: "('a \<Rightarrow> 'a \<Rightarrow> bool) \<Rightarrow> 'a list \<Rightarrow> nat \<Rightarrow> nat \<Rightarrow> 'a list" where
  "insertDown lt d a 0 = d"
| "insertDown lt d a (Suc j) =
     (if Suc j > a \<and> lt (d ! Suc j) (d ! j) then insertDown lt (swap d (Suc j) j) a j else d)"

definition insertionSort_func :: "('a \<Rightarrow> 'a \<Rightarrow> bool) \<Rightarrow> 'a list \<Rightarrow> nat \<Rightarrow> nat \<Rightarrow> 'a list" where
  "insertionSort_func lt d a b = foldl (\<lambda>d i. insertDown lt d a i) d [a + 1 ..< b]"

function siftDown_func :: "('a \<Rightarrow> 'a \<Rightarrow> bool) \<Rightarrow> 'a list \<Rightarrow> nat \<Rightarrow> nat \<Rightarrow> nat \<Rightarrow> 'a list" where
  "siftDown_func lt d rootIdx hi first =
     (let child = 2 * rootIdx + 1 in
      if child \<ge> hi then d
      else
        let child' = (if child + 1 < hi \<and> lt (d ! (first + child)) (d ! (first + child + 1))
                      then child + 1 else child)
        in if \<not> lt (d ! (first + rootIdx)) (d ! (first + child')) then d
           else siftDown_func lt (swap d (first + rootIdx) (first + child')) child' hi first)"
  by pat_completeness auto
termination
  by (relation "measure (\<lambda>(lt, d, rootIdx, hi, first). hi - rootIdx)") (auto split: if_splits)

declare siftDown_func.simps [simp del]

definition heapSort_func :: "('a \<Rightarrow> 'a \<Rightarrow> bool) \<Rightarrow> 'a list \<Rightarrow> nat \<Rightarrow> nat \<Rightarrow> 'a list" where
  "heapSort_func lt d a b =
     (let first = a; hi = b - a;
          d1 = foldl (\<lambda>d i. siftDown_func lt d i hi first) d (rev [0 ..< (hi - 1) div 2 + 1])
      in foldl (\<lambda>d i. siftDown_func lt (swap d first (first + i)) 0 i first) d1 (rev [0 ..< hi]))"

subsection \<open>Pivot choice and pattern breaking\<close>

datatype sortedHint = unknownHint | increasingHint | decreasingHint

definition order2_func :: "('a \<Rightarrow> 'a \<Rightarrow> bool) \<Rightarrow> 'a list \<Rightarrow> nat \<Rightarrow> nat \<Rightarrow> nat \<Rightarrow> nat \<times> nat \<times> nat" where
  "order2_func lt d a b swaps = (if lt (d ! b) (d ! a) then (b, a, swaps + 1) else (a, b, swaps))"

definition median_func :: "('a \<Rightarrow> 'a \<Rightarrow> bool) \<Rightarrow> 'a list \<Rightarrow> nat \<Rightarrow> nat \<Rightarrow> nat \<Rightarrow> nat \<Rightarrow> nat \<times> nat" where
  "median_func lt d a b c swaps =
     (case order2_func lt d a b swaps of (a1, b1, s1) \<Rightarrow>
      case order2_func lt d b1 c s1 of (b2, c2, s2) \<Rightarrow>
      case order2_func lt d a1 b2 s2 of (a3, b3, s3) \<Rightarrow> (b3, s3))"

definition medianAdjacent_func :: "('a \<Rightarrow> 'a \<Rightarrow> bool) \<Rightarrow> 'a list \<Rightarrow> nat \<Rightarrow> nat \<Rightarrow> nat \<times> nat" where
  "medianAdjacent_func lt d a swaps = median_func lt d (a - 1) a (a + 1) swaps"

definition choosePivot_func :: "('a \<Rightarrow> 'a \<Rightarrow> bool) \<Rightarrow> 'a list \<Rightarrow> nat \<Rightarrow> nat \<Rightarrow> nat \<times> sortedHint" where
  "choosePivot_func lt d a b =
     (let l = b - a;
          i = a + l div 4 * 1;
          j = a + l div 4 * 2;
          k = a + l div 4 * 3;
          (j', swaps) =
            (if l \<ge> 8 then
               (if l \<ge> 50 then
                  (case medianAdjacent_func lt d i 0 of (i1, s1) \<Rightarrow>
                   case medianAdjacent_func lt d j s1 of (j1, s2) \<Rightarrow>
                   case medianAdjacent_func lt d k s2 of (k1, s3) \<Rightarrow>
                   median_func lt d i1 j1 k1 s3)
                else median_func lt d i j k 0)
             else (j, 0))
      in if swaps = 0 then (j', increasingHint)
         else if swaps = 12 then (j', decreasingHint)
         else (j', unknownHint))"

function reverseLoop :: "'a list \<Rightarrow> nat \<Rightarrow> nat \<Rightarrow> 'a list" where
  "reverseLoop d i j = (if i < j then reverseLoop (swap d i j) (i + 1) (j - 1) else d)"
  by pat_completeness auto
termination
  by (relation "measure (\<lambda>(d, i, j). j - i)") auto

declare reverseLoop.simps [simp del]

definition reverseRange_func :: "'a list \<Rightarrow> nat \<Rightarrow> nat \<Rightarrow> 'a list" where
  "reverseRange_func d a b = reverseLoop d a (b - 1)"

fun bitsLen :: "nat \<Rightarrow> nat" where
  "bitsLen n = (if n = 0 then 0 else Suc (bitsLen (n div 2)))"

declare bitsLen.simps [simp del]

text \<open>
  The generator \<open>xorshift\<close> on \<open>uint64\<close>. In \<open>breakPatterns_func\<close> the modulus is a
  power of two, so that masking with \<open>modulus - 1\<close> is the remainder modulo \<open>modulus\<close>.
\<close>

definition xorshiftNext :: "64 word \<Rightarrow> 64 word" where
  "xorshiftNext r =
     (let r1 = xor r (push_bit 13 r);
          r2 = xor r1 (drop_bit 7 r1)
      in xor r2 (push_bit 17 r2))"

definition breakPatterns_func :: "'a list \<Rightarrow> nat \<Rightarrow> nat \<Rightarrow> 'a list" where
  "breakPatterns_func d a b =
     (let len = b - a in
      if len \<ge> 8 then
        (let modulus = (2 :: nat) ^ bitsLen len;
             idx = a + (len div 4) * 2 - 1
         in snd (foldl (\<lambda>(random, d) i.
                   (let random' = xorshiftNext random;
                        other0 = unat random' mod modulus;
                        other = (if other0 \<ge> len then other0 - len else other0)
                    in (random', swap d (idx - 1 + i) (a + other))))
                 (word_of_nat len, d) [0 ..< 3]))
      else d)"

subsection \<open>Partial insertion sort\<close>

function scanSorted :: "('a \<Rightarrow> 'a \<Rightarrow> bool) \<Rightarrow> 'a list \<Rightarrow> nat \<Rightarrow> nat \<Rightarrow> nat" where
  "scanSorted lt d b i = (if i < b \<and> \<not> lt (d ! i) (d ! (i - 1)) then scanSorted lt d b (i + 1) else i)"
  by pat_completeness auto
termination
  by (relation "measure (\<lambda>(lt, d, b, i). b - i)") auto

declare scanSorted.simps [simp del]

text \<open>\<open>for j := i - 1; j >= 1; j--\<close>: shift the smaller element to the left.\<close>

fun shiftSmaller :: "('a \<Rightarrow> 'a \<Rightarrow> bool) \<Rightarrow> 'a list \<Rightarrow> nat \<Rightarrow> 'a list" where
  "shiftSmaller lt d 0 = d"
| "shiftSmaller lt d (Suc j) =
     (if \<not> lt (d ! Suc j) (d ! j) then d else shiftSmaller lt (swap d (Suc j) j) j)"

text \<open>\<open>for j := i + 1; j < b; j++\<close>: shift the greater element to the right.\<close>

function shiftGreater :: "('a \<Rightarrow> 'a \<Rightarrow> bool) \<Rightarrow> 'a list \<Rightarrow> nat \<Rightarrow> nat \<Rightarrow> 'a list" where
  "shiftGreater lt d b j =
     (if j < b then
        (if \<not> lt (d ! j) (d ! (j - 1)) then d else shiftGreater lt (swap d j (j - 1)) b (j + 1))
      else d)"
  by pat_completeness auto
termination
  by (relation "measure (\<lambda>(lt, d, b, j). b - j)") auto

declare shiftGreater.simps [simp del]

fun partialInsertionSteps ::
  "('a \<Rightarrow> 'a \<Rightarrow> bool) \<Rightarrow> 'a list \<Rightarrow> nat \<Rightarrow> nat \<Rightarrow> nat \<Rightarrow> nat \<Rightarrow> bool \<times> 'a list" where
  "partialInsertionSteps lt d a b i 0 = (False, d)"
| "partialInsertionSteps lt d a b i (Suc n) =
     (let i' = scanSorted lt d b i in
      if i' = b then (True, d)
      else if b - a < 50 then (False, d)
      else
        let d1 = swap d i' (i' - 1);
            d2 = (if i' - a \<ge> 2 then shiftSmaller lt d1 (i' - 1) else d1);
            d3 = (if b - i' \<ge> 2 then shiftGreater lt d2 b (i' + 1) else d2)
        in partialInsertionSteps lt d3 a b i' n)"

definition partialInsertionSort_func ::
  "('a \<Rightarrow> 'a \<Rightarrow> bool) \<Rightarrow> 'a list \<Rightarrow> nat \<Rightarrow> nat \<Rightarrow> bool \<times> 'a list" where
  "partialInsertionSort_func lt d a b = partialInsertionSteps lt d a b (a + 1) 5"

subsection \<open>Partitioning\<close>

text \<open>
  The two scans of a partition step: \<open>for i <= j && P(data[i]) { i++ }\<close> and
  \<open>for i <= j && P(data[j]) { j-- }\<close>, the latter on \<open>jx = j + 1\<close>.
\<close>

function scanUp :: "('a \<Rightarrow> bool) \<Rightarrow> 'a list \<Rightarrow> nat \<Rightarrow> nat \<Rightarrow> nat" where
  "scanUp P d i jx = (if i < jx \<and> P (d ! i) then scanUp P d (i + 1) jx else i)"
  by pat_completeness auto
termination
  by (relation "measure (\<lambda>(P, d, i, jx). jx - i)") auto

declare scanUp.simps [simp del]

function scanDown :: "('a \<Rightarrow> bool) \<Rightarrow> 'a list \<Rightarrow> nat \<Rightarrow> nat \<Rightarrow> nat" where
  "scanDown P d i jx = (if i < jx \<and> P (d ! (jx - 1)) then scanDown P d i (jx - 1) else jx)"
  by pat_completeness auto
termination
  by (relation "measure (\<lambda>(P, d, i, jx). jx)") auto

declare scanDown.simps [simp del]

lemma scanUp_bounds: "i \<le> scanUp P d i jx \<and> scanUp P d i jx \<le> max i jx"
proof (induction P d i jx rule: scanUp.induct)
  case (1 P d i jx)
  show ?case
  proof (cases "i < jx \<and> P (d ! i)")
    case True
    then show ?thesis using 1 by (subst (1 2) scanUp.simps) (auto simp: max_def split: if_splits)
  next
    case False
    then show ?thesis by (subst (1 2) scanUp.simps) auto
  qed
qed

lemma scanDown_bounds: "min i jx \<le> scanDown P d i jx \<and> scanDown P d i jx \<le> jx"
proof (induction P d i jx rule: scanDown.induct)
  case (1 P d i jx)
  show ?case
  proof (cases "i < jx \<and> P (d ! (jx - 1))")
    case True
    then show ?thesis using 1 by (subst (1 2) scanDown.simps) (auto simp: min_def split: if_splits)
  next
    case False
    then show ?thesis by (subst (1 2) scanDown.simps) auto
  qed
qed

text \<open>
  The main loop of \<open>partition_func\<close>, with the pivot at \<open>data[a]\<close>; it returns the
  slice and the final \<open>jx\<close>.
\<close>

function partitionLoop :: "('a \<Rightarrow> 'a \<Rightarrow> bool) \<Rightarrow> 'a list \<Rightarrow> nat \<Rightarrow> nat \<Rightarrow> nat \<Rightarrow> 'a list \<times> nat" where
  "partitionLoop lt d a i jx =
     (let i' = scanUp (\<lambda>x. lt x (d ! a)) d i jx;
          jx' = scanDown (\<lambda>x. \<not> lt x (d ! a)) d i' jx
      in if i' \<ge> jx' then (d, jx')
         else partitionLoop lt (swap d i' (jx' - 1)) a (i' + 1) (jx' - 1))"
  by pat_completeness auto
termination
proof (relation "measure (\<lambda>(lt, d, a, i, jx). jx - i)", goal_cases)
  case 1
  show ?case by simp
next
  case (2 lt d a i jx i' jx')
  have "i \<le> i'" using 2(1) scanUp_bounds[of i "\<lambda>x. lt x (d ! a)" d jx] by simp
  moreover have "jx' \<le> jx" using 2(2) scanDown_bounds[of i' jx "\<lambda>x. \<not> lt x (d ! a)" d] by simp
  ultimately show ?case using 2(3) by simp
qed

declare partitionLoop.simps [simp del]

definition partition_func ::
  "('a \<Rightarrow> 'a \<Rightarrow> bool) \<Rightarrow> 'a list \<Rightarrow> nat \<Rightarrow> nat \<Rightarrow> nat \<Rightarrow> 'a list \<times> nat \<times> bool" where
  "partition_func lt d0 a b pivot =
     (let d = swap d0 a pivot;
          i = scanUp (\<lambda>x. lt x (d ! a)) d (a + 1) b;
          jx = scanDown (\<lambda>x. \<not> lt x (d ! a)) d i b
      in if i \<ge> jx then (swap d (jx - 1) a, jx - 1, True)
         else
           (case partitionLoop lt (swap d i (jx - 1)) a (i + 1) (jx - 1) of
              (d', jx') \<Rightarrow> (swap d' (jx' - 1) a, jx' - 1, False)))"

function partitionEqualLoop :: "('a \<Rightarrow> 'a \<Rightarrow> bool) \<Rightarrow> 'a list \<Rightarrow> nat \<Rightarrow> nat \<Rightarrow> nat \<Rightarrow> 'a list \<times> nat" where
  "partitionEqualLoop lt d a i jx =
     (let i' = scanUp (\<lambda>x. \<not> lt (d ! a) x) d i jx;
          jx' = scanDown (\<lambda>x. lt (d ! a) x) d i' jx
      in if i' \<ge> jx' then (d, i')
         else partitionEqualLoop lt (swap d i' (jx' - 1)) a (i' + 1) (jx' - 1))"
  by pat_completeness auto
termination
proof (relation "measure (\<lambda>(lt, d, a, i, jx). jx - i)", goal_cases)
  case 1
  show ?case by simp
next
  case (2 lt d a i jx i' jx')
  have "i \<le> i'" using 2(1) scanUp_bounds[of i "\<lambda>x. \<not> lt (d ! a) x" d jx] by simp
  moreover have "jx' \<le> jx" using 2(2) scanDown_bounds[of i' jx "\<lambda>x. lt (d ! a) x" d] by simp
  ultimately show ?case using 2(3) by simp
qed

declare partitionEqualLoop.simps [simp del]

definition partitionEqual_func ::
  "('a \<Rightarrow> 'a \<Rightarrow> bool) \<Rightarrow> 'a list \<Rightarrow> nat \<Rightarrow> nat \<Rightarrow> nat \<Rightarrow> 'a list \<times> nat" where
  "partitionEqual_func lt d0 a b pivot = partitionEqualLoop lt (swap d0 a pivot) a (a + 1) b"

subsection \<open>The main loop\<close>

text \<open>
  The bounds of the partition points, needed for the termination of \<open>pdqsort_func\<close>.
\<close>

lemma partitionLoop_bounds:
  "min i jx \<le> snd (partitionLoop lt d a i jx) \<and> snd (partitionLoop lt d a i jx) \<le> jx"
proof (induction lt d a i jx rule: partitionLoop.induct)
  case (1 lt d a i jx)
  define i' where "i' = scanUp (\<lambda>x. lt x (d ! a)) d i jx"
  define jx' where "jx' = scanDown (\<lambda>x. \<not> lt x (d ! a)) d i' jx"
  have bi: "i \<le> i'" "i' \<le> max i jx" unfolding i'_def using scanUp_bounds by auto
  have bj: "min i' jx \<le> jx'" "jx' \<le> jx" unfolding jx'_def using scanDown_bounds by auto
  show ?case
  proof (cases "i' \<ge> jx'")
    case True
    then have "partitionLoop lt d a i jx = (d, jx')"
      by (subst partitionLoop.simps) (simp add: i'_def jx'_def Let_def)
    then show ?thesis using bi bj by auto
  next
    case False
    then have e: "partitionLoop lt d a i jx = partitionLoop lt (swap d i' (jx' - 1)) a (i' + 1) (jx' - 1)"
      by (subst partitionLoop.simps) (simp add: i'_def jx'_def Let_def)
    have ih: "min (i' + 1) (jx' - 1) \<le> snd (partitionLoop lt (swap d i' (jx' - 1)) a (i' + 1) (jx' - 1))
        \<and> snd (partitionLoop lt (swap d i' (jx' - 1)) a (i' + 1) (jx' - 1)) \<le> jx' - 1"
      using "1.IH"[OF i'_def jx'_def] False by simp
    show ?thesis unfolding e using ih bi bj False by auto
  qed
qed

lemma partition_func_bounds:
  assumes "a < b"
  shows "a \<le> fst (snd (partition_func lt d a b pivot)) \<and> fst (snd (partition_func lt d a b pivot)) < b"
proof -
  define d1 where "d1 = swap d a pivot"
  define i where "i = scanUp (\<lambda>x. lt x (d1 ! a)) d1 (a + 1) b"
  define jx where "jx = scanDown (\<lambda>x. \<not> lt x (d1 ! a)) d1 i b"
  have bi: "a + 1 \<le> i" "i \<le> b" unfolding i_def using scanUp_bounds[of "a + 1" _ d1 b] assms(1) by auto
  have bj: "i \<le> jx" "jx \<le> b" unfolding jx_def using scanDown_bounds[of i b _ d1] bi by auto
  have e: "partition_func lt d a b pivot =
      (if i \<ge> jx then (swap d1 (jx - 1) a, jx - 1, True)
       else (case partitionLoop lt (swap d1 i (jx - 1)) a (i + 1) (jx - 1) of
               (d', jx') \<Rightarrow> (swap d' (jx' - 1) a, jx' - 1, False)))"
    by (simp only: partition_func_def Let_def d1_def i_def jx_def)
  show ?thesis
  proof (cases "i \<ge> jx")
    case True
    then show ?thesis unfolding e using bi bj by auto
  next
    case False
    obtain d2 jx2 where p: "partitionLoop lt (swap d1 i (jx - 1)) a (i + 1) (jx - 1) = (d2, jx2)"
      by (cases "partitionLoop lt (swap d1 i (jx - 1)) a (i + 1) (jx - 1)") auto
    have "min (i + 1) (jx - 1) \<le> jx2 \<and> jx2 \<le> jx - 1"
      using partitionLoop_bounds[of "i + 1" "jx - 1" lt "swap d1 i (jx - 1)" a] p by simp
    then show ?thesis unfolding e p using bi bj False by auto
  qed
qed

lemma partitionEqualLoop_lower: "i \<le> snd (partitionEqualLoop lt d a i jx)"
proof (induction lt d a i jx rule: partitionEqualLoop.induct)
  case (1 lt d a i jx)
  define i' where "i' = scanUp (\<lambda>x. \<not> lt (d ! a) x) d i jx"
  define jx' where "jx' = scanDown (\<lambda>x. lt (d ! a) x) d i' jx"
  have bi: "i \<le> i'" unfolding i'_def using scanUp_bounds by auto
  show ?case
  proof (cases "i' \<ge> jx'")
    case True
    then have "partitionEqualLoop lt d a i jx = (d, i')"
      by (subst partitionEqualLoop.simps) (simp add: i'_def jx'_def Let_def)
    then show ?thesis using bi by auto
  next
    case False
    then have e: "partitionEqualLoop lt d a i jx = partitionEqualLoop lt (swap d i' (jx' - 1)) a (i' + 1) (jx' - 1)"
      by (subst partitionEqualLoop.simps) (simp add: i'_def jx'_def Let_def)
    show ?thesis unfolding e using "1.IH"[OF i'_def jx'_def] False bi by simp
  qed
qed

lemma partitionEqual_func_lower: "a < snd (partitionEqual_func lt d a b pivot)"
  using partitionEqualLoop_lower[of "a + 1" lt "swap d a pivot" a b]
  by (simp add: partitionEqual_func_def)

text \<open>
  \<open>pdqsort_func\<close> is a loop around one recursive call: the call sorts the shorter
  side of the partition with fresh flags, the loop goes on with the longer side. The
  arguments \<open>wasBalanced\<close> and \<open>wasPartitioned\<close> are the loop's variables.
\<close>

function pdqsort_func ::
  "('a \<Rightarrow> 'a \<Rightarrow> bool) \<Rightarrow> 'a list \<Rightarrow> nat \<Rightarrow> nat \<Rightarrow> nat \<Rightarrow> bool \<Rightarrow> bool \<Rightarrow> 'a list" where
  "pdqsort_func lt d a b limit wasBalanced wasPartitioned =
     (if b - a \<le> 12 then insertionSort_func lt d a b
      else if limit = 0 then heapSort_func lt d a b
      else
        (let d1 = (if \<not> wasBalanced then breakPatterns_func d a b else d);
             limit1 = (if \<not> wasBalanced then limit - 1 else limit);
             ph = choosePivot_func lt d1 a b;
             d2 = (if snd ph = decreasingHint then reverseRange_func d1 a b else d1);
             pivot = (if snd ph = decreasingHint then (b - 1) - (fst ph - a) else fst ph);
             hint = (if snd ph = decreasingHint then increasingHint else snd ph);
             pis = (if wasBalanced \<and> wasPartitioned \<and> hint = increasingHint
                    then partialInsertionSort_func lt d2 a b else (False, d2));
             d3 = snd pis
         in if fst pis then d3
            else if a > 0 \<and> \<not> lt (d3 ! (a - 1)) (d3 ! pivot) then
              (let pe = partitionEqual_func lt d3 a b pivot
               in pdqsort_func lt (fst pe) (snd pe) b limit1 wasBalanced wasPartitioned)
            else
              (let pr = partition_func lt d3 a b pivot;
                   d4 = fst pr;
                   mid = fst (snd pr);
                   alreadyPartitioned = snd (snd pr);
                   leftLen = mid - a;
                   rightLen = b - mid;
                   balanceThreshold = (b - a) div 8
               in if leftLen < rightLen then
                    pdqsort_func lt (pdqsort_func lt d4 a mid limit1 True True) (mid + 1) b limit1
                      (leftLen \<ge> balanceThreshold) alreadyPartitioned
                  else
                    pdqsort_func lt (pdqsort_func lt d4 (mid + 1) b limit1 True True) a mid limit1
                      (rightLen \<ge> balanceThreshold) alreadyPartitioned)))"
  by pat_completeness auto
termination
proof (relation "measure (\<lambda>(lt, d, a, b, limit, wb, wp). b - a)", goal_cases)
  case 1
  show ?case by simp
next
  case (2 lt d a b limit wb wp d1 limit1 ph d2 pivot hint pis d3 pe)
  have l: "\<not> b - a \<le> 12" by fact
  have "pe = partitionEqual_func lt d3 a b pivot" by fact
  then have "a < snd pe" by (simp add: partitionEqual_func_lower)
  with l show ?case by simp
next
  case (3 lt d a b limit wb wp d1 limit1 ph d2 pivot hint pis d3 pr d4 mid)
  have l: "\<not> b - a \<le> 12" by fact
  have "pr = partition_func lt d3 a b pivot" "mid = fst (snd pr)" by fact+
  then have "a \<le> mid \<and> mid < b" using partition_func_bounds[of a b lt d3 pivot] l by simp
  then show ?case by auto
next
  case (4 lt d a b limit wb wp d1 limit1 ph d2 pivot hint pis d3 pr d4 mid)
  have l: "\<not> b - a \<le> 12" by fact
  have "pr = partition_func lt d3 a b pivot" "mid = fst (snd pr)" by fact+
  then have "a \<le> mid \<and> mid < b" using partition_func_bounds[of a b lt d3 pivot] l by simp
  then show ?case by auto
next
  case (5 lt d a b limit wb wp d1 limit1 ph d2 pivot hint pis d3 pr d4 mid)
  have l: "\<not> b - a \<le> 12" by fact
  have "pr = partition_func lt d3 a b pivot" "mid = fst (snd pr)" by fact+
  then have "a \<le> mid \<and> mid < b" using partition_func_bounds[of a b lt d3 pivot] l by simp
  then show ?case by auto
next
  case (6 lt d a b limit wb wp d1 limit1 ph d2 pivot hint pis d3 pr d4 mid)
  have l: "\<not> b - a \<le> 12" by fact
  have "pr = partition_func lt d3 a b pivot" "mid = fst (snd pr)" by fact+
  then have "a \<le> mid \<and> mid < b" using partition_func_bounds[of a b lt d3 pivot] l by simp
  then show ?case by auto
qed

declare pdqsort_func.simps [simp del]

definition sort_Slice :: "('a \<Rightarrow> 'a \<Rightarrow> bool) \<Rightarrow> 'a list \<Rightarrow> 'a list" where
  "sort_Slice lt x = pdqsort_func lt x 0 (length x) (bitsLen (length x)) True True"


section \<open>The Task Collector (\<open>tasks.go\<close>)\<close>

subsection \<open>Upstream records and requests\<close>

text \<open>
  \<open>models.Task\<close>, with the fields that \<open>buildTaskDetail\<close> reads; a \<open>KanboardTime\<close> is
  a \<open>time.Time\<close>, the zero time standing for an absent date.
\<close>

record Task =
  TaskID :: int
  TaskTitle :: string
  TaskDescription :: string
  DateCreation :: Time
  ColumnID :: int
  OwnerID :: int
  DateDue :: Time
  DateModified :: Time
  DateStarted :: Time
  TimeSpent :: real
  TimeEstimated :: real
  SwimlaneID :: int

record ProjectData =
  ProjectDataID :: int
  ProjectDataName :: string

record DateRange =
  RangeStart :: string
  RangeEnd :: string

record TasksRequest =
  ProjectIDs :: "string list"
  AssigneeIDs :: "string list"
  StatusFilter :: string
  DueDateRange :: "DateRange option"
  IncludeOverdue :: bool
  IncludeTimeTracking :: bool
  SortBy :: string
  Limit :: int
  SummaryMode :: bool

record TaskSummary =
  SummaryID :: string
  SummaryTitle :: string
  SummaryProject :: ProjectInfo
  SummaryAssignee :: "UserInfo option"
  SummaryStatus :: string
  SummaryDueDate :: string
  SummaryIsOverdue :: bool
  SummaryDaysUntilDue :: "int option"

record TasksSummary =
  TotalTasks :: int
  OverdueTasks :: int
  DueThisWeek :: int
  UnassignedTasks :: int

record TasksResponse =
  Summary :: TasksSummary
  Tasks :: "TaskDetail list"
  TaskSummaries :: "TaskSummary list"
  Truncated :: bool
  TruncatedAt :: int
  ResponseSize :: int

text \<open>What a handler returns instead of a response: an error value or a run-time panic.\<close>

datatype error =
    SliceBoundsPanic
  | MarshalError
  | TasksDataError

definition MaxResponseSize :: nat where
  "MaxResponseSize = 200 * 1024"

definition WarningResponseSize :: nat where
  "WarningResponseSize = 150 * 1024"

definition MaxTasksHardLimit :: int where
  "MaxTasksHardLimit = 100"

subsection \<open>Building the canonical task record\<close>

text \<open>
  \<open>calculateDueDateInfo\<close>: the instant \<open>now\<close> is the value of \<open>time.Now()\<close> read
  after the due date has been parsed.
\<close>

definition parseDue :: "string \<Rightarrow> Time option" where
  "parseDue dueDateStr =
     (case parseDateTime dueDateStr of Some dueDate \<Rightarrow> Some dueDate | None \<Rightarrow> parseDate dueDateStr)"

definition calculateDueDateInfo :: "Time \<Rightarrow> string \<Rightarrow> bool \<times> int option" where
  "calculateDueDateInfo now dueDateStr =
     (if dueDateStr = '''' then (False, None)
      else case parseDue dueDateStr of
             None \<Rightarrow> (False, None)
           | Some dueDate \<Rightarrow>
               (let days = goInt (Hours (Sub dueDate now) / 24);
                    isOverdue = Before dueDate now
                in (isOverdue, Some days)))"

definition formatKanboardTime :: "Time \<Rightarrow> string" where
  "formatKanboardTime kt = (if IsZero kt then '''' else FormatDateTime kt)"

text \<open>A Go map read \<open>m[k]\<close> yields the zero value, here the empty string, for a missing key.\<close>

definition lookupName :: "(int \<rightharpoonup> string) \<Rightarrow> int \<Rightarrow> string" where
  "lookupName m k = (case m k of None \<Rightarrow> '''' | Some v \<Rightarrow> v)"

definition taskURL :: "string \<Rightarrow> int \<Rightarrow> int \<Rightarrow> string" where
  "taskURL baseURL tid pid =
     baseURL @ ''/?controller=TaskViewController&action=show&task_id='' @ showInt tid @
     ''&project_id='' @ showInt pid"

definition buildTaskDetail ::
  "Time \<Rightarrow> Task \<Rightarrow> ProjectData \<Rightarrow> (int \<rightharpoonup> string) \<Rightarrow> (int \<rightharpoonup> string) \<Rightarrow> (int \<rightharpoonup> UserInfo) \<Rightarrow>
   string \<Rightarrow> bool \<Rightarrow> TaskDetail" where
  "buildTaskDetail now task project columnMap swimlaneMap userMap baseURL includeTimeTracking =
     (let detail =
            \<lparr>ID = showInt (TaskID task),
             Title = TaskTitle task,
             Description = TaskDescription task,
             Project = \<lparr>ProjectID = showInt (ProjectDataID project), ProjectName = ProjectDataName project\<rparr>,
             Assignee = None,
             Status = \<lparr>Column = lookupName columnMap (ColumnID task),
                       Swimlane = lookupName swimlaneMap (SwimlaneID task)\<rparr>,
             Dates = \<lparr>Created = '''', Due = '''', Modified = '''', Started = ''''\<rparr>,
             TimeTracking = None,
             Priority = ''normal'',
             Category = '''',
             Tags = [],
             URL = taskURL baseURL (TaskID task) (ProjectDataID project),
             IsOverdue = False,
             DaysUntilDue = None\<rparr>;
          detail1 = (if OwnerID task > 0
                     then (case userMap (OwnerID task) of
                             Some user \<Rightarrow> detail\<lparr>Assignee := Some user\<rparr>
                           | None \<Rightarrow> detail)
                     else detail);
          detail2 = detail1\<lparr>Dates :=
                      \<lparr>Created = formatKanboardTime (DateCreation task),
                       Due = formatKanboardTime (DateDue task),
                       Modified = formatKanboardTime (DateModified task),
                       Started = formatKanboardTime (DateStarted task)\<rparr>\<rparr>;
          detail3 = (if \<not> IsZero (DateDue task)
                     then (case calculateDueDateInfo now (FormatDateTime (DateDue task)) of
                             (isOverdue, days) \<Rightarrow> detail2\<lparr>IsOverdue := isOverdue, DaysUntilDue := days\<rparr>)
                     else detail2)
      in if includeTimeTracking
         then detail3\<lparr>TimeTracking := Some \<lparr>EstimatedHours = TimeEstimated task,
                                              SpentHours = TimeSpent task,
                                              RemainingHours = TimeEstimated task - TimeSpent task\<rparr>\<rparr>
         else detail3)"

subsection \<open>Filtering\<close>

definition isTaskInDateRange :: "TaskDetail \<Rightarrow> DateRange \<Rightarrow> bool" where
  "isTaskInDateRange task dateRange =
     (if Due (Dates task) = '''' then False
      else case parseDateTime (Due (Dates task)) of
             None \<Rightarrow> False
           | Some dueDate \<Rightarrow>
               (if RangeStart dateRange \<noteq> '''' \<and>
                   (case parseDate (RangeStart dateRange) of
                      None \<Rightarrow> True
                    | Some startDate \<Rightarrow> Before dueDate startDate)
                then False
                else if RangeEnd dateRange \<noteq> '''' \<and>
                   (case parseDate (RangeEnd dateRange) of
                      None \<Rightarrow> True
                    | Some endDate \<Rightarrow> After dueDate endDate)
                then False
                else True))"

definition shouldIncludeTask :: "TaskDetail \<Rightarrow> TasksRequest \<Rightarrow> bool" where
  "shouldIncludeTask task req =
     (if StatusFilter req = ''active'' \<and> TasksHandler_isTaskCompleted task then False
      else if StatusFilter req = ''completed'' \<and> \<not> TasksHandler_isTaskCompleted task then False
      else if length (AssigneeIDs req) > 0 \<and>
              (case Assignee task of
                 None \<Rightarrow> True
               | Some user \<Rightarrow> UserID user \<notin> set (AssigneeIDs req))
      then False
      else if \<not> IncludeOverdue req \<and> IsOverdue task then False
      else if (case DueDateRange req of
                 None \<Rightarrow> False
               | Some dateRange \<Rightarrow> \<not> isTaskInDateRange task dateRange)
      then False
      else True)"

definition filterTasks :: "TaskDetail list \<Rightarrow> TasksRequest \<Rightarrow> TaskDetail list" where
  "filterTasks tasks req = filter (\<lambda>task. shouldIncludeTask task req) tasks"

subsection \<open>The comparators of \<open>sortTasks\<close>\<close>

definition getPriorityValue :: "string \<Rightarrow> int" where
  "getPriorityValue priority =
     (if priority = ''urgent'' then 3
      else if priority = ''high'' then 2
      else if priority = ''normal'' then 1
      else if priority = ''low'' then 0
      else 1)"

definition dueDateLess :: "TaskDetail \<Rightarrow> TaskDetail \<Rightarrow> bool" where
  "dueDateLess x y =
     (if Due (Dates x) = '''' \<and> Due (Dates y) = '''' then False
      else if Due (Dates x) = '''' then False
      else if Due (Dates y) = '''' then True
      else Due (Dates x) < Due (Dates y))"

definition priorityLess :: "TaskDetail \<Rightarrow> TaskDetail \<Rightarrow> bool" where
  "priorityLess x y = (getPriorityValue (Priority x) > getPriorityValue (Priority y))"

definition createdLess :: "TaskDetail \<Rightarrow> TaskDetail \<Rightarrow> bool" where
  "createdLess x y = (Created (Dates x) > Created (Dates y))"

subsection \<open>Summary counts and output shaping\<close>

definition countWhere :: "('a \<Rightarrow> bool) \<Rightarrow> 'a list \<Rightarrow> int" where
  "countWhere P xs = int (length (filter P xs))"

definition calculateTasksSummary :: "Time \<Rightarrow> TaskDetail list \<Rightarrow> TasksSummary" where
  "calculateTasksSummary now tasks =
     (let weekFromNow = AddDate now 0 0 7
      in \<lparr>TotalTasks = int (length tasks),
          OverdueTasks = countWhere IsOverdue tasks,
          DueThisWeek =
            countWhere (\<lambda>task. Due (Dates task) \<noteq> '''' \<and>
                          (case parseDateTime (Due (Dates task)) of
                             None \<Rightarrow> False
                           | Some dueDate \<Rightarrow> Before dueDate weekFromNow \<and> After dueDate now)) tasks,
          UnassignedTasks = countWhere (\<lambda>task. Assignee task = None) tasks\<rparr>)"

text \<open>
  The slice expression \<open>tasks[:limit]\<close> panics for a negative \<open>limit\<close>; it is reached
  only when \<open>len(tasks) > limit\<close>.
\<close>

definition sliceTo :: "'a list \<Rightarrow> int \<Rightarrow> error + 'a list" where
  "sliceTo xs limit =
     (if int (length xs) > limit
      then (if limit < 0 then Inl SliceBoundsPanic else Inr (take (nat limit) xs))
      else Inr xs)"

definition toTaskSummary :: "TaskDetail \<Rightarrow> TaskSummary" where
  "toTaskSummary task =
     \<lparr>SummaryID = ID task,
      SummaryTitle = Title task,
      SummaryProject = Project task,
      SummaryAssignee =
        (case Assignee task of
           None \<Rightarrow> None
         | Some u \<Rightarrow> Some \<lparr>UserID = UserID u, Username = Username u, Name = Name u\<rparr>),
      SummaryStatus = Column (Status task),
      SummaryDueDate = Due (Dates task),
      SummaryIsOverdue = IsOverdue task,
      SummaryDaysUntilDue = DaysUntilDue task\<rparr>"

definition createTaskSummaries :: "TaskDetail list \<Rightarrow> int \<Rightarrow> error + TaskSummary list" where
  "createTaskSummaries tasks limit =
     (case sliceTo tasks limit of
        Inl e \<Rightarrow> Inl e
      | Inr tasks' \<Rightarrow> Inr (map toTaskSummary tasks'))"

definition emptySummary :: TasksSummary where
  "emptySummary = \<lparr>TotalTasks = 0, OverdueTasks = 0, DueThisWeek = 0, UnassignedTasks = 0\<rparr>"

definition testResponse :: "TaskDetail list \<Rightarrow> TasksResponse" where
  "testResponse testTasks =
     \<lparr>Summary = emptySummary, Tasks = testTasks, TaskSummaries = [],
      Truncated = False, TruncatedAt = 0, ResponseSize = 0\<rparr>"

text \<open>
  \<open>applyResponseSizeLimits\<close>. The encoder \<open>json.Marshal\<close> is an argument \<open>marshal\<close>,
  returning the bytes or failing. The loop \<open>for limit := len(tasks); limit > 0; limit--\<close>
  is a recursion on \<open>limit\<close>.
\<close>

fun sizeLimitLoop ::
  "(TasksResponse \<Rightarrow> string option) \<Rightarrow> TaskDetail list \<Rightarrow> nat \<Rightarrow> TaskDetail list \<times> bool \<times> int" where
  "sizeLimitLoop marshal tasks 0 = ([], True, 0)"
| "sizeLimitLoop marshal tasks (Suc l) =
     (let testTasks = take (Suc l) tasks
      in case marshal (testResponse testTasks) of
           None \<Rightarrow> sizeLimitLoop marshal tasks l
         | Some testJSON \<Rightarrow>
             if length testJSON \<le> MaxResponseSize
             then (if Suc l < length tasks then (testTasks, True, int (Suc l))
                   else (testTasks, False, 0))
             else sizeLimitLoop marshal tasks l)"

definition applyResponseSizeLimits ::
  "(TasksResponse \<Rightarrow> string option) \<Rightarrow> TaskDetail list \<Rightarrow> int \<Rightarrow> error + TaskDetail list \<times> bool \<times> int" where
  "applyResponseSizeLimits marshal tasks requestedLimit =
     (case sliceTo tasks requestedLimit of
        Inl e \<Rightarrow> Inl e
      | Inr tasks' \<Rightarrow> Inr (sizeLimitLoop marshal tasks' (length tasks')))"

subsection \<open>Sample inputs\<close>

text \<open>
  An upstream task created on 2023-12-31, due on 2024-01-01 at 00:00:00 UTC, never
  started and without an owner; and its project.
\<close>

definition sampleRawTask :: Task where
  "sampleRawTask =
     \<lparr>TaskID = 7, TaskTitle = ''Write report'', TaskDescription = '''',
      DateCreation = \<lparr>unixNano = 1703980800000000000, zoneOffset = 0\<rparr>,
      ColumnID = 2, OwnerID = 0,
      DateDue = \<lparr>unixNano = 1704067200000000000, zoneOffset = 0\<rparr>,
      DateModified = \<lparr>unixNano = 1703980800000000000, zoneOffset = 0\<rparr>,
      DateStarted = \<lparr>unixNano = - 62135596800000000000, zoneOffset = 0\<rparr>,
      TimeSpent = 0, TimeEstimated = 0, SwimlaneID = 1\<rparr>"

definition sampleProject :: ProjectData where
  "sampleProject = \<lparr>ProjectDataID = 1, ProjectDataName = ''Alpha''\<rparr>"

subsection \<open>\<open>sortTasks\<close> and \<open>Handle\<close>\<close>

definition sortTasks :: "TaskDetail list \<Rightarrow> string \<Rightarrow> TaskDetail list" where
  "sortTasks tasks sortBy =
     (if sortBy = ''due_date'' then sort_Slice dueDateLess tasks
      else if sortBy = ''priority'' then sort_Slice priorityLess tasks
      else if sortBy = ''created'' then sort_Slice createdLess tasks
      else sort_Slice dueDateLess tasks)"

text \<open>
  \<open>Handle\<close> after the request has been decoded over its defaults: the two limit
  checks, then filter, sort, summary and the shaping of the response. The collected
  tasks are an argument (authentication and the upstream fetch are outside the model),
  as are the clock and the encoder.
\<close>

definition clampLimit :: "TasksRequest \<Rightarrow> TasksRequest" where
  "clampLimit req =
     (let req1 = (if Limit req > MaxTasksHardLimit then req\<lparr>Limit := MaxTasksHardLimit\<rparr> else req)
      in if SummaryMode req1 \<and> Limit req1 > MaxTasksHardLimit * 2
         then req1\<lparr>Limit := MaxTasksHardLimit * 2\<rparr>
         else req1)"

definition buildResponse ::
  "(TasksResponse \<Rightarrow> string option) \<Rightarrow> Time \<Rightarrow> TasksRequest \<Rightarrow> TaskDetail list \<Rightarrow> error + TasksResponse" where
  "buildResponse marshal now req0 tasks =
     (let req = clampLimit req0;
          filteredTasks = filterTasks tasks req;
          sortedTasks = sortTasks filteredTasks (SortBy req);
          summary = calculateTasksSummary now sortedTasks
      in if SummaryMode req then
           (case createTaskSummaries sortedTasks (Limit req) of
              Inl e \<Rightarrow> Inl e
            | Inr taskSummaries \<Rightarrow>
                Inr \<lparr>Summary = summary, Tasks = [], TaskSummaries = taskSummaries,
                     Truncated = False, TruncatedAt = 0, ResponseSize = 0\<rparr>)
         else
           (case applyResponseSizeLimits marshal sortedTasks (Limit req) of
              Inl e \<Rightarrow> Inl e
            | Inr (finalTasks, truncated, truncatedAt) \<Rightarrow>
                Inr \<lparr>Summary = summary, Tasks = finalTasks, TaskSummaries = [],
                     Truncated = truncated, TruncatedAt = truncatedAt, ResponseSize = 0\<rparr>))"

text \<open>
  The response is encoded with \<open>json.MarshalIndent\<close> (argument \<open>marshalIndent\<close>); above
  the warning size it is encoded a second time with its size filled in, and an error of
  that second encoding is dropped. The result is the response and its text.
\<close>

definition TasksHandler_Handle ::
  "(TasksResponse \<Rightarrow> string option) \<Rightarrow> (TasksResponse \<Rightarrow> string option) \<Rightarrow> Time \<Rightarrow> TasksRequest \<Rightarrow>
   TaskDetail list \<Rightarrow> error + TasksResponse \<times> string" where
  "TasksHandler_Handle marshal marshalIndent now req0 tasks =
     (case buildResponse marshal now req0 tasks of
        Inl e \<Rightarrow> Inl e
      | Inr response \<Rightarrow>
          (case marshalIndent response of
             None \<Rightarrow> Inl MarshalError
           | Some responseJSON \<Rightarrow>
               (let response' = response\<lparr>ResponseSize := int (length responseJSON)\<rparr>
                in if length responseJSON > WarningResponseSize
                   then Inr (response', case marshalIndent response' of None \<Rightarrow> '''' | Some js \<Rightarrow> js)
                   else Inr (response', responseJSON))))"

text \<open>The request of \<open>Handle\<close> before the parameters are decoded over it.\<close>

definition defaultTasksRequest :: TasksRequest where
  "defaultTasksRequest =
     \<lparr>ProjectIDs = [], AssigneeIDs = [], StatusFilter = ''active'', DueDateRange = None,
      IncludeOverdue = False, IncludeTimeTracking = True, SortBy = ''due_date'', Limit = 20,
      SummaryMode = True\<rparr>"

section \<open>The Priority Analyzer: urgency\<close>

record UrgentItem =
  ItemTaskID :: string
  ItemTitle :: string
  UrgencyScore :: int
  Reason :: string
  ItemProject :: string
  DaysOverdue :: int

text \<open>
  The unary minus of a 64-bit \<open>int\<close>: the least value is its own negation.
\<close>

definition negInt64 :: "int \<Rightarrow> int" where
  "negInt64 x = (if x = - 9223372036854775808 then x else - x)"

definition calculateUrgencyScore :: "TaskDetail \<Rightarrow> Time \<Rightarrow> Time \<Rightarrow> int" where
  "calculateUrgencyScore task now timeLimit =
     (let score0 = (if Due (Dates task) \<noteq> '''' then 20 else 0);
          score1 =
            (if IsOverdue task then
               score0 + 40 +
                 (case DaysUntilDue task of
                    None \<Rightarrow> 0
                  | Some d \<Rightarrow>
                      (let daysOverdue = negInt64 d
                       in if daysOverdue > 7 then 30 else if daysOverdue > 3 then 20 else 10))
             else score0);
          score2 =
            (if \<not> IsOverdue task \<and> Due (Dates task) \<noteq> '''' then
               (case parseDateTime (Due (Dates task)) of
                  None \<Rightarrow> score1
                | Some dueDate \<Rightarrow>
                    if Before dueDate timeLimit then
                      (let daysUntil = goInt (Hours (Sub dueDate now) / 24)
                       in if daysUntil \<le> 1 then score1 + 25
                          else if daysUntil \<le> 3 then score1 + 15
                          else if daysUntil \<le> 7 then score1 + 10
                          else score1)
                    else score1)
             else score1);
          score3 =
            (if Priority task = ''urgent'' then score2 + 25
             else if Priority task = ''high'' then score2 + 15
             else if Priority task = ''normal'' then score2 + 5
             else score2)
      in if Assignee task = None then score3 + 15 else score3)"

definition getUrgencyReason :: "TaskDetail \<Rightarrow> Time \<Rightarrow> string" where
  "getUrgencyReason task now =
     (let reasons1 =
            (if IsOverdue task then
               (case DaysUntilDue task of
                  Some d \<Rightarrow>
                    (if negInt64 d = 1 then [''Overdue by 1 day'']
                     else [''Overdue by '' @ showInt (negInt64 d) @ '' days''])
                | None \<Rightarrow> [''Task is overdue''])
             else if Due (Dates task) \<noteq> '''' then
               (case parseDateTime (Due (Dates task)) of
                  None \<Rightarrow> []
                | Some dueDate \<Rightarrow>
                    (let daysUntil = goInt (Hours (Sub dueDate now) / 24)
                     in if daysUntil = 0 then [''Due today'']
                        else if daysUntil = 1 then [''Due tomorrow'']
                        else if daysUntil \<le> 3 then [''Due in '' @ showInt daysUntil @ '' days'']
                        else []))
             else []);
          reasons2 =
            (if Priority task = ''urgent'' then reasons1 @ [''marked as urgent priority'']
             else if Priority task = ''high'' then reasons1 @ [''marked as high priority'']
             else reasons1);
          reasons3 =
            (if Assignee task = None then reasons2 @ [''unassigned task needs attention'']
             else reasons2)
      in case reasons3 of [] \<Rightarrow> ''High priority task'' | r # _ \<Rightarrow> r)"

definition timeLimitFor :: "Time \<Rightarrow> string \<Rightarrow> Time" where
  "timeLimitFor now timeHorizon =
     (if timeHorizon = ''today'' then AddDate now 0 0 1
      else if timeHorizon = ''week'' then AddDate now 0 0 7
      else if timeHorizon = ''month'' then AddDate now 0 1 0
      else AddDate now 0 0 7)"

definition toUrgentItem :: "TaskDetail \<Rightarrow> Time \<Rightarrow> Time \<Rightarrow> UrgentItem" where
  "toUrgentItem task now timeLimit =
     \<lparr>ItemTaskID = ID task,
      ItemTitle = Title task,
      UrgencyScore = calculateUrgencyScore task now timeLimit,
      Reason = getUrgencyReason task now,
      ItemProject = ProjectName (Project task),
      DaysOverdue =
        (case DaysUntilDue task of
           Some d \<Rightarrow> (if IsOverdue task then negInt64 d else 0)
         | None \<Rightarrow> 0)\<rparr>"

definition urgencyLess :: "UrgentItem \<Rightarrow> UrgentItem \<Rightarrow> bool" where
  "urgencyLess x y = (UrgencyScore x > UrgencyScore y)"

definition findUrgentItems :: "Time \<Rightarrow> TaskDetail list \<Rightarrow> string \<Rightarrow> UrgentItem list" where
  "findUrgentItems now tasks timeHorizon =
     (let timeLimit = timeLimitFor now timeHorizon;
          urgentItems =
            map (\<lambda>task. toUrgentItem task now timeLimit)
              (filter (\<lambda>task. calculateUrgencyScore task now timeLimit \<ge> 70) tasks);
          sorted = sort_Slice urgencyLess urgentItems
      in if length sorted > 10 then take 10 sorted else sorted)"

subsection \<open>The task set of the Priority Analyzer\<close>

text \<open>
  \<open>PrioritiesHandler.Handle\<close> calls the Collector's \<open>Handle\<close> with the parameters
  below, decoded over the Collector's defaults, and analyses the \<open>tasks\<close> field of the
  decoded response text. Decoding is taken to return the record that was encoded; an
  empty text (the second encoding failed) does not decode.
\<close>

definition prioritiesTasksRequest :: "string list \<Rightarrow> TasksRequest" where
  "prioritiesTasksRequest projectIDs =
     defaultTasksRequest\<lparr>ProjectIDs := projectIDs, StatusFilter := ''all'', IncludeOverdue := True,
       IncludeTimeTracking := True, SortBy := ''due_date'', Limit := 200, SummaryMode := False\<rparr>"

definition analysedTasks ::
  "(TasksResponse \<Rightarrow> string option) \<Rightarrow> (TasksResponse \<Rightarrow> string option) \<Rightarrow> Time \<Rightarrow> string list \<Rightarrow>
   TaskDetail list \<Rightarrow> error + TaskDetail list" where
  "analysedTasks marshal marshalIndent now projectIDs tasks =
     (case TasksHandler_Handle marshal marshalIndent now (prioritiesTasksRequest projectIDs) tasks of
        Inl e \<Rightarrow> Inl e
      | Inr (tasksData, text) \<Rightarrow> if text = '''' then Inl TasksDataError else Inr (Tasks tasksData))"

section \<open>The Trend Analyzer: cycle time\<close>

record CycleTimeMetric =
  MetricColumn :: string
  MetricProject :: string
  AvgDays :: real
  MinDays :: real
  MaxDays :: real
  TaskCount :: int
  Efficiency :: string

definition calculateAverage :: "real list \<Rightarrow> real" where
  "calculateAverage values =
     (if length values = 0 then 0 else foldl (\<lambda>sum v. sum + v) 0 values / real (length values))"

definition calculateMin :: "real list \<Rightarrow> real" where
  "calculateMin values =
     (case values of [] \<Rightarrow> 0 | v0 # _ \<Rightarrow> foldl (\<lambda>m v. if v < m then v else m) v0 values)"

definition calculateMax :: "real list \<Rightarrow> real" where
  "calculateMax values =
     (case values of [] \<Rightarrow> 0 | v0 # _ \<Rightarrow> foldl (\<lambda>m v. if v > m then v else m) v0 values)"

text \<open>The zero value of \<open>time.Time\<close>: 1 January of year 1, UTC.\<close>

definition zeroTime :: Time where
  "zeroTime = \<lparr>unixNano = - 62135596800 * 1000000000, zoneOffset = 0\<rparr>"

text \<open>
  The cycle time of one task in days, when the loop body reaches the computation:
  the task is completed, its start and end parse, and the duration is positive.
  Without started and created date the start is the zero time.
\<close>

definition cycleDaysOf :: "TaskDetail \<Rightarrow> real option" where
  "cycleDaysOf task =
     (if \<not> AnalyticsHandler_isTaskCompleted task then None
      else
        (case (if Started (Dates task) \<noteq> '''' then parseDateTime (Started (Dates task))
               else if Created (Dates task) \<noteq> '''' then parseDateTime (Created (Dates task))
               else Some zeroTime) of
           None \<Rightarrow> None
         | Some startTime \<Rightarrow>
             if Modified (Dates task) \<noteq> '''' then
               (case parseDateTime (Modified (Dates task)) of
                  None \<Rightarrow> None
                | Some endTime \<Rightarrow>
                    (let cycleDays = Hours (Sub endTime startTime) / 24
                     in if cycleDays > 0 then Some cycleDays else None))
             else None))"

text \<open>
  The map \<open>columnMap\<close> from the key \<open>project:column\<close> to the cycle times, as an
  association list in the order in which the keys are first written. Go ranges over a
  map in an unspecified order; the model ranges in that order of first writing.
\<close>

fun appendAt :: "string \<Rightarrow> real \<Rightarrow> (string \<times> real list) list \<Rightarrow> (string \<times> real list) list" where
  "appendAt key v [] = [(key, [v])]"
| "appendAt key v ((k, vs) # m) = (if k = key then (k, vs @ [v]) # m else (k, vs) # appendAt key v m)"

definition cycleKey :: "TaskDetail \<Rightarrow> string" where
  "cycleKey task = ProjectName (Project task) @ '':'' @ Column (Status task)"

definition collectCycleTimes :: "TaskDetail list \<Rightarrow> (string \<times> real list) list" where
  "collectCycleTimes tasks =
     foldl (\<lambda>columnMap task.
              case cycleDaysOf task of
                None \<Rightarrow> columnMap
              | Some cycleDays \<Rightarrow> appendAt (cycleKey task) cycleDays columnMap) [] tasks"

definition cycleTimeMetric :: "string \<Rightarrow> real list \<Rightarrow> CycleTimeMetric" where
  "cycleTimeMetric key durations =
     (let keyParts = key;
          project = (if length keyParts > 0 then ''Project'' else ''Unknown'');
          column = (if length keyParts > 0 then ''Column'' else ''Unknown'');
          avg = calculateAverage durations;
          efficiency = (if avg > 14 then ''Poor'' else if avg > 7 then ''Average'' else ''Good'')
      in \<lparr>MetricColumn = column, MetricProject = project, AvgDays = avg,
          MinDays = calculateMin durations, MaxDays = calculateMax durations,
          TaskCount = int (length durations), Efficiency = efficiency\<rparr>)"

definition avgDaysLess :: "CycleTimeMetric \<Rightarrow> CycleTimeMetric \<Rightarrow> bool" where
  "avgDaysLess x y = (AvgDays x > AvgDays y)"

definition analyseCycleTime :: "TaskDetail list \<Rightarrow> CycleTimeMetric list" where
  "analyseCycleTime tasks =
     sort_Slice avgDaysLess
       (map (\<lambda>(key, durations). cycleTimeMetric key durations)
          (filter (\<lambda>(key, durations). length durations \<noteq> 0) (collectCycleTimes tasks)))"

text \<open>A completed task of project Alpha in column Done, created on 1 January 2024 and last modified four days later.\<close>

definition doneTask :: TaskDetail where
  "doneTask =
     sampleTask\<lparr>Status := \<lparr>Column = ''Done'', Swimlane = ''Default''\<rparr>,
       Dates := \<lparr>Created = ''2024-01-01T00:00:00Z'', Due = '''',
                 Modified = ''2024-01-05T00:00:00Z'', Started = ''''\<rparr>\<rparr>"

section \<open>Properties of \<open>sort.Slice\<close>\<close>

subsection \<open>Short slices\<close>

lemma sort_Slice_short:
  "length x \<le> 12 \<Longrightarrow> sort_Slice lt x = insertionSort_func lt x 0 (length x)"
  by (simp add: sort_Slice_def pdqsort_func.simps)

lemma sort_Slice_single: "sort_Slice lt [x] = [x]"
  by (simp add: sort_Slice_short insertionSort_func_def)


section \<open>Properties of the completion predicates\<close>

lemma anyEqual_iff: "anyEqual c cols \<longleftrightarrow> c \<in> set cols"
  by (induction cols) auto

lemma of_char_toLowerASCII:
  "(of_char (toLowerASCII c) :: nat) =
     (if 65 \<le> (of_char c :: nat) \<and> (of_char c :: nat) \<le> 90 then of_char c + 32 else of_char c)"
  by (simp add: toLowerASCII_def)

lemma toLowerASCII_eq_iff:
  assumes "(of_char sr :: nat) < 128" "(of_char tr :: nat) < 128"
  shows "toLowerASCII sr = toLowerASCII tr \<longleftrightarrow> tr = sr \<or> asciiCasePair sr tr"
proof -
  have inj: "\<And>a b :: char. a = b \<longleftrightarrow> (of_char a :: nat) = of_char b"
    by simp
  show ?thesis
    unfolding inj[of "toLowerASCII sr"] inj[of tr] of_char_toLowerASCII asciiCasePair_def Let_def
    using assms by (auto simp: min_def max_def)
qed

lemma toLowerASCII_ge128: "\<not> (of_char c :: nat) < 128 \<Longrightarrow> toLowerASCII c = c"
  by (simp add: toLowerASCII_def)

lemma toLowerASCII_lt128: "(of_char c :: nat) < 128 \<Longrightarrow> (of_char (toLowerASCII c) :: nat) < 128"
  by (simp add: of_char_toLowerASCII)

lemma toLowerASCII_s: "toLowerASCII tr = CHR ''s'' \<longleftrightarrow> tr = CHR ''s'' \<or> tr = CHR ''S''"
proof -
  have inj: "\<And>a b :: char. a = b \<longleftrightarrow> (of_char a :: nat) = of_char b"
    by simp
  show ?thesis
    unfolding inj[of "toLowerASCII tr"] inj[of tr] of_char_toLowerASCII
    by auto
qed

lemma toLowerASCII_k: "toLowerASCII tr = CHR ''k'' \<longleftrightarrow> tr = CHR ''k'' \<or> tr = CHR ''K''"
proof -
  have inj: "\<And>a b :: char. a = b \<longleftrightarrow> (of_char a :: nat) = of_char b"
    by simp
  show ?thesis
    unfolding inj[of "toLowerASCII tr"] inj[of tr] of_char_toLowerASCII
    by auto
qed

lemma caseFold_Nil_iff: "caseFold s = [] \<longleftrightarrow> s = []"
  by (cases s) auto

lemma caseFold_ASCII_Cons:
  "(of_char tr :: nat) < 128 \<Longrightarrow> caseFold (tr # t) = toLowerASCII tr # caseFold t"
  by auto

lemma EqualFold_caseFold:
  "isASCII t \<Longrightarrow> EqualFold s t \<longleftrightarrow> caseFold s = caseFold t"
proof (induction s t rule: EqualFold.induct)
  case (1 t)
  then show ?case using caseFold_Nil_iff[of t] by auto
next
  case (2 sr s)
  then show ?case by (simp split: if_splits)
next
  case (3 sr s tr t)
  from "3.prems" have tr: "(of_char tr :: nat) < 128" and t: "isASCII t"
    by (simp_all add: isASCII_def)
  have ct: "caseFold (tr # t) = toLowerASCII tr # caseFold t"
    using tr by (rule caseFold_ASCII_Cons)
  show ?case
  proof (cases "(of_char sr :: nat) < 128")
    case True
    then have cs: "caseFold (sr # s) = toLowerASCII sr # caseFold s" by (rule caseFold_ASCII_Cons)
    show ?thesis
      using "3.IH"(1)[OF True _ t] True tr toLowerASCII_eq_iff[OF True tr]
      unfolding cs ct by auto
  next
    case False
    show ?thesis
    proof (cases "sr = CHR 0xC5 \<and> take 1 s = [CHR 0xBF]")
      case c5: True
      then have cs: "caseFold (sr # s) = CHR ''s'' # caseFold (drop 1 s)" by simp
      show ?thesis
        using "3.IH"(2)[OF False c5 _ t] False c5 toLowerASCII_s[of tr]
        unfolding cs ct by (auto simp del: caseFold.simps)
    next
      case nc5: False
      show ?thesis
      proof (cases "sr = CHR 0xE2 \<and> take 2 s = [CHR 0x84, CHR 0xAA]")
        case e2: True
        then have cs: "caseFold (sr # s) = CHR ''k'' # caseFold (drop 2 s)" by simp
        show ?thesis
          using "3.IH"(3)[OF False nc5 e2 _ t] False nc5 e2 toLowerASCII_k[of tr]
          unfolding cs ct by (auto simp del: caseFold.simps)
      next
        case ne2: False
        have cs: "caseFold (sr # s) = sr # caseFold s"
          using nc5 ne2 toLowerASCII_ge128[OF False] by auto
        have "toLowerASCII tr \<noteq> sr"
          using toLowerASCII_lt128[OF tr] False by auto
        then show ?thesis
          using False nc5 ne2 unfolding cs ct by (auto simp del: caseFold.simps)
      qed
    qed
  qed
qed

lemma TasksHandler_isTaskCompleted_iff:
  "TasksHandler_isTaskCompleted task \<longleftrightarrow>
     caseFold (Column (Status task)) \<in> {''done'', ''completed'', ''closed'', ''finished''}"
proof -
  have a: "isASCII ''Done''" "isASCII ''Completed''" "isASCII ''Closed''" "isASCII ''Finished''"
    by (simp_all add: isASCII_def)
  have f: "caseFold ''Done'' = ''done''" "caseFold ''Completed'' = ''completed''"
     "caseFold ''Closed'' = ''closed''" "caseFold ''Finished'' = ''finished''"
    by (simp_all add: toLowerASCII_def char_of_eq_iff)
  show ?thesis
    unfolding TasksHandler_isTaskCompleted_def completedColumns_def
    by (simp add: EqualFold_caseFold[OF a(1)] EqualFold_caseFold[OF a(2)]
        EqualFold_caseFold[OF a(3)] EqualFold_caseFold[OF a(4)] f del: EqualFold.simps caseFold.simps) 
qed

lemma AnalyticsHandler_isTaskCompleted_iff:
  "AnalyticsHandler_isTaskCompleted task \<longleftrightarrow>
     Column (Status task) \<in> {''Done'', ''Completed'', ''Closed'', ''Finished''}"
  by (simp add: AnalyticsHandler_isTaskCompleted_def completedColumns_def anyEqual_iff)

text \<open>
  Claim C9. The Trend Analyzer's completion predicate holds exactly when the column name
  is one of Done, Completed, Closed, Finished; the Collector's holds exactly when the
  column name equals one of them up to case. Whenever the exact predicate holds the
  case-insensitive one holds too, so they agree on the exact-case names, and they differ
  on the case variant \<open>done\<close>.
\<close>

theorem C9_completion_predicates:
  "(AnalyticsHandler_isTaskCompleted task \<longleftrightarrow>
      Column (Status task) \<in> {''Done'', ''Completed'', ''Closed'', ''Finished''})
   \<and> (TasksHandler_isTaskCompleted task \<longleftrightarrow>
      caseInsensitiveEq (Column (Status task)) ''Done'' \<or>
      caseInsensitiveEq (Column (Status task)) ''Completed'' \<or>
      caseInsensitiveEq (Column (Status task)) ''Closed'' \<or>
      caseInsensitiveEq (Column (Status task)) ''Finished'')
   \<and> (AnalyticsHandler_isTaskCompleted task \<longrightarrow> TasksHandler_isTaskCompleted task)
   \<and> TasksHandler_isTaskCompleted (task\<lparr>Status := \<lparr>Column = ''done'', Swimlane = sw\<rparr>\<rparr>)
   \<and> \<not> AnalyticsHandler_isTaskCompleted (task\<lparr>Status := \<lparr>Column = ''done'', Swimlane = sw\<rparr>\<rparr>)"
proof -
  have f: "caseFold ''Done'' = ''done''" "caseFold ''Completed'' = ''completed''"
     "caseFold ''Closed'' = ''closed''" "caseFold ''Finished'' = ''finished''"
     "caseFold ''done'' = ''done''"
    by (simp_all add: toLowerASCII_def char_of_eq_iff)
  have a: "AnalyticsHandler_isTaskCompleted task \<longleftrightarrow>
      Column (Status task) \<in> {''Done'', ''Completed'', ''Closed'', ''Finished''}"
    by (rule AnalyticsHandler_isTaskCompleted_iff)
  have t: "TasksHandler_isTaskCompleted task \<longleftrightarrow>
      caseInsensitiveEq (Column (Status task)) ''Done'' \<or>
      caseInsensitiveEq (Column (Status task)) ''Completed'' \<or>
      caseInsensitiveEq (Column (Status task)) ''Closed'' \<or>
      caseInsensitiveEq (Column (Status task)) ''Finished''"
    unfolding TasksHandler_isTaskCompleted_iff caseInsensitiveEq_def f by auto
  have i: "AnalyticsHandler_isTaskCompleted task \<longrightarrow> TasksHandler_isTaskCompleted task"
    unfolding a t caseInsensitiveEq_def by auto
  have d1: "TasksHandler_isTaskCompleted (task\<lparr>Status := \<lparr>Column = ''done'', Swimlane = sw\<rparr>\<rparr>)"
    unfolding TasksHandler_isTaskCompleted_iff by (simp add: f del: caseFold.simps)
  have d2: "\<not> AnalyticsHandler_isTaskCompleted (task\<lparr>Status := \<lparr>Column = ''done'', Swimlane = sw\<rparr>\<rparr>)"
    unfolding AnalyticsHandler_isTaskCompleted_iff by simp
  from a t i d1 d2 show ?thesis by blast
qed

theorem C9_completion_predicates_witness:
  "AnalyticsHandler_isTaskCompleted (sampleTask\<lparr>Status := \<lparr>Column = ''Closed'', Swimlane = ''''\<rparr>\<rparr>)
   \<and> TasksHandler_isTaskCompleted (sampleTask\<lparr>Status := \<lparr>Column = ''Closed'', Swimlane = ''''\<rparr>\<rparr>)"
  using C9_completion_predicates [of "sampleTask\<lparr>Status := \<lparr>Column = ''Closed'', Swimlane = ''''\<rparr>\<rparr>" "''''"]
  by (simp add: caseInsensitiveEq_def)

section \<open>Properties of the canonical task record\<close>

subsection \<open>Durations in whole days\<close>

lemma goInt_days:
  "goInt (Hours d / 24) =
     (if 0 \<le> d then d div 86400000000000 else - ((- d) div 86400000000000))"
proof -
  have e: "Hours d / 24 = real_of_int d / real_of_int 86400000000000"
    by (simp add: Hours_def)
  have f: "\<lfloor>real_of_int d / real_of_int 86400000000000\<rfloor> = d div 86400000000000"
    by (rule floor_divide_of_int_eq)
  have c: "\<lceil>real_of_int d / real_of_int 86400000000000\<rceil> = - ((- d) div 86400000000000)"
  proof -
    have "\<lceil>real_of_int d / real_of_int 86400000000000\<rceil>
          = - \<lfloor>real_of_int (- d) / real_of_int 86400000000000\<rfloor>"
      by (simp add: ceiling_def)
    also have "\<dots> = - ((- d) div 86400000000000)"
      by (simp only: floor_divide_of_int_eq)
    finally show ?thesis .
  qed
  have s: "(0 \<le> Hours d / 24) = (0 \<le> d)"
    by (simp add: Hours_def)
  show ?thesis
    unfolding goInt_def s unfolding e f c by simp
qed

lemma Sub_neg: "Before due now \<Longrightarrow> Sub due now < 0"
  by (simp add: Before_def Sub_def minDuration_def maxDuration_def)

lemma Sub_nonneg: "\<not> Before due now \<Longrightarrow> 0 \<le> Sub due now"
  by (simp add: Before_def Sub_def minDuration_def maxDuration_def)

lemma goInt_days_nonpos: "d < 0 \<Longrightarrow> goInt (Hours d / 24) \<le> 0"
  by (simp add: goInt_def Hours_def ceiling_le_zero divide_nonpos_pos)

lemma goInt_days_nonneg: "0 \<le> d \<Longrightarrow> 0 \<le> goInt (Hours d / 24)"
  by (simp add: goInt_def Hours_def)

lemma calculateDueDateInfo_cases:
  "calculateDueDateInfo now s =
     (case parseDue s of
        None \<Rightarrow> (False, None)
      | Some due \<Rightarrow> (Before due now, Some (goInt (Hours (Sub due now) / 24))))"
proof (cases "s = ''''")
  case True
  have "parseDue '''' = None"
    by (simp add: parseDue_def parseDateTime_def parseDate_def getDate_def getYear_def)
  with True show ?thesis by (simp add: calculateDueDateInfo_def)
next
  case False
  then show ?thesis by (simp add: calculateDueDateInfo_def Let_def split: option.splits)
qed

lemma buildTaskDetail_due:
  "Due (Dates (buildTaskDetail now task project cm sm um baseURL tt)) = formatKanboardTime (DateDue task)"
  by (simp add: buildTaskDetail_def Let_def split: option.splits prod.splits)

lemma buildTaskDetail_overdue:
  "(IsOverdue (buildTaskDetail now task project cm sm um baseURL tt),
    DaysUntilDue (buildTaskDetail now task project cm sm um baseURL tt)) =
   calculateDueDateInfo now (formatKanboardTime (DateDue task))"
proof (cases "IsZero (DateDue task)")
  case True
  then show ?thesis
    by (simp add: buildTaskDetail_def Let_def formatKanboardTime_def calculateDueDateInfo_def split: option.splits)
next
  case False
  then show ?thesis
    by (simp add: buildTaskDetail_def Let_def formatKanboardTime_def split: option.splits prod.splits)
qed

subsection \<open>Evaluation at the sample task\<close>

lemma format_sample_due:
  "FormatDateTime \<lparr>unixNano = 1704067200000000000, zoneOffset = 0\<rparr> = ''2024-01-01T00:00:00Z''"
  by code_simp

lemma parse_sample_due:
  "parseDateTime ''2024-01-01T00:00:00Z'' = Some \<lparr>unixNano = 1704067200000000000, zoneOffset = 0\<rparr>"
  by code_simp

lemma sample_due_nonzero: "\<not> IsZero (DateDue sampleRawTask)"
  by (simp add: sampleRawTask_def IsZero_def)

lemma sample_due_info:
  "(IsOverdue (buildTaskDetail now sampleRawTask project cm sm um baseURL tt),
    DaysUntilDue (buildTaskDetail now sampleRawTask project cm sm um baseURL tt)) =
   (unixNano now > 1704067200000000000,
    Some (goInt (Hours (Sub \<lparr>unixNano = 1704067200000000000, zoneOffset = 0\<rparr> now) / 24)))"
proof -
  have f: "formatKanboardTime (DateDue sampleRawTask) = ''2024-01-01T00:00:00Z''"
    using sample_due_nonzero format_sample_due
    by (simp add: formatKanboardTime_def sampleRawTask_def)
  show ?thesis
    unfolding buildTaskDetail_overdue f calculateDueDateInfo_cases
    by (simp add: parseDue_def parse_sample_due Before_def)
qed

text \<open>
  Claim C1, as the code has it. For the record built at the instant \<open>now\<close>: it is
  overdue exactly when its due date parses to an instant strictly before \<open>now\<close>; an
  overdue record has a days-until-due that is at most zero (zero while the task is
  overdue by less than a day); a record that is not overdue and has a parseable due date
  has a days-until-due that is at least zero; without a parseable due date there is no
  days-until-due.
\<close>

theorem C1_due_date_info:
  fixes now task project cm sm um baseURL tt
  defines "d \<equiv> buildTaskDetail now task project cm sm um baseURL tt"
  shows "(IsOverdue d \<longleftrightarrow> (\<exists>due. parseDue (Due (Dates d)) = Some due \<and> Before due now))
       \<and> (IsOverdue d \<longrightarrow> (\<exists>n. DaysUntilDue d = Some n \<and> n \<le> 0))
       \<and> (\<not> IsOverdue d \<and> parseDue (Due (Dates d)) \<noteq> None \<longrightarrow> (\<exists>n. DaysUntilDue d = Some n \<and> 0 \<le> n))
       \<and> (parseDue (Due (Dates d)) = None \<longrightarrow> DaysUntilDue d = None)"
proof -
  have e: "(IsOverdue d, DaysUntilDue d) = calculateDueDateInfo now (Due (Dates d))"
    unfolding d_def buildTaskDetail_due by (rule buildTaskDetail_overdue)
  show ?thesis
  proof (cases "parseDue (Due (Dates d))")
    case None
    with e show ?thesis by (simp add: calculateDueDateInfo_cases)
  next
    case (Some due)
    with e have o: "IsOverdue d = Before due now"
      and n: "DaysUntilDue d = Some (goInt (Hours (Sub due now) / 24))"
      by (simp_all add: calculateDueDateInfo_cases)
    show ?thesis
      using Some o n goInt_days_nonpos[OF Sub_neg, of due now] goInt_days_nonneg[OF Sub_nonneg, of due now]
      by auto
  qed
qed

text \<open>Three days after the due date the sample task is overdue, with days-until-due -3.\<close>

theorem C1_due_date_info_witness:
  "IsOverdue (buildTaskDetail \<lparr>unixNano = 1704326400000000000, zoneOffset = 0\<rparr>
      sampleRawTask sampleProject Map.empty Map.empty Map.empty ''http://kb'' True)
   \<and> DaysUntilDue (buildTaskDetail \<lparr>unixNano = 1704326400000000000, zoneOffset = 0\<rparr>
      sampleRawTask sampleProject Map.empty Map.empty Map.empty ''http://kb'' True) = Some (- 3)"
  using C1_due_date_info [of "\<lparr>unixNano = 1704326400000000000, zoneOffset = 0\<rparr>"
      sampleRawTask sampleProject Map.empty Map.empty Map.empty "''http://kb''" True]
    sample_due_info [of "\<lparr>unixNano = 1704326400000000000, zoneOffset = 0\<rparr>"
      sampleProject Map.empty Map.empty Map.empty "''http://kb''" True]
  by (simp add: goInt_days Sub_def minDuration_def maxDuration_def)

text \<open>
  One hour after the due date the sample task is overdue, and its days-until-due is 0,
  not negative.
\<close>

theorem C1_counterexample:
  "IsOverdue (buildTaskDetail \<lparr>unixNano = 1704070800000000000, zoneOffset = 0\<rparr>
      sampleRawTask sampleProject Map.empty Map.empty Map.empty ''http://kb'' True)
   \<and> DaysUntilDue (buildTaskDetail \<lparr>unixNano = 1704070800000000000, zoneOffset = 0\<rparr>
      sampleRawTask sampleProject Map.empty Map.empty Map.empty ''http://kb'' True) = Some 0"
  using sample_due_info [of "\<lparr>unixNano = 1704070800000000000, zoneOffset = 0\<rparr>"
      sampleProject Map.empty Map.empty Map.empty "''http://kb''" True]
  by (simp add: goInt_days Sub_def minDuration_def maxDuration_def)

text \<open>
  Claim C10. Every record the Collector builds has priority \<open>normal\<close> and an empty
  category, whatever the upstream task holds. Hence the priority term of its urgency
  score is 5 (the score is 5 above that of the same record with priority \<open>low\<close>, whose
  term is 0), and the comparator of the sort by priority holds for no pair of built
  records.
\<close>

theorem C10_priority_always_normal:
  "Priority (buildTaskDetail now task project cm sm um baseURL tt) = ''normal''
   \<and> Category (buildTaskDetail now task project cm sm um baseURL tt) = ''''
   \<and> calculateUrgencyScore (buildTaskDetail now task project cm sm um baseURL tt) now' timeLimit =
       calculateUrgencyScore ((buildTaskDetail now task project cm sm um baseURL tt)\<lparr>Priority := ''low''\<rparr>)
         now' timeLimit + 5
   \<and> \<not> priorityLess (buildTaskDetail now task project cm sm um baseURL tt)
                      (buildTaskDetail now2 task2 project2 cm2 sm2 um2 baseURL2 tt2)
   \<and> getPriorityValue (Priority (buildTaskDetail now task project cm sm um baseURL tt)) = 1"
proof -
  have p: "\<And>now task project cm sm um baseURL tt.
      Priority (buildTaskDetail now task project cm sm um baseURL tt) = ''normal''"
    by (simp add: buildTaskDetail_def Let_def split: option.splits prod.splits)
  have c: "Category (buildTaskDetail now task project cm sm um baseURL tt) = ''''"
    by (simp add: buildTaskDetail_def Let_def split: option.splits prod.splits)
  have s: "\<And>d. Priority d = ''normal'' \<Longrightarrow>
      calculateUrgencyScore d now' timeLimit = calculateUrgencyScore (d\<lparr>Priority := ''low''\<rparr>) now' timeLimit + 5"
    by (simp add: calculateUrgencyScore_def Let_def split: option.splits)
  show ?thesis
    using p c s[OF p] by (simp add: priorityLess_def getPriorityValue_def)
qed

section \<open>Properties of the urgency score\<close>

lemma goInt_mono: "x \<le> y \<Longrightarrow> goInt x \<le> goInt y"
proof -
  assume xy: "x \<le> y"
  show ?thesis
  proof (cases "0 \<le> x")
    case True
    with xy show ?thesis by (simp add: goInt_def floor_mono)
  next
    case False
    show ?thesis
    proof (cases "0 \<le> y")
      case True
      have "\<lceil>x\<rceil> \<le> 0" using False by (simp add: ceiling_le_zero)
      moreover have "0 \<le> \<lfloor>y\<rfloor>" using True by simp
      ultimately have "\<lceil>x\<rceil> \<le> \<lfloor>y\<rfloor>" by linarith
      then show ?thesis using False True by (simp add: goInt_def)
    next
      case y: False
      with False xy show ?thesis by (simp add: goInt_def ceiling_mono)
    qed
  qed
qed

lemma Sub_mono: "unixNano d2 \<le> unixNano d1 \<Longrightarrow> unixNano now \<le> unixNano now' \<Longrightarrow> Sub d2 now' \<le> Sub d1 now"
  by (simp add: Sub_def minDuration_def maxDuration_def)

lemma daysUntil_mono:
  "unixNano d2 \<le> unixNano d1 \<Longrightarrow> unixNano now \<le> unixNano now' \<Longrightarrow>
   goInt (Hours (Sub d2 now') / 24) \<le> goInt (Hours (Sub d1 now) / 24)"
  by (rule goInt_mono) (simp add: Hours_def Sub_mono divide_right_mono)

text \<open>
  The terms of the score, named for the proofs: the bonus of a task that is not overdue
  as a function of its due instant, the priority term and the overdue term.
\<close>

definition dueSoonBonus :: "Time \<Rightarrow> Time \<Rightarrow> Time \<Rightarrow> int" where
  "dueSoonBonus dueDate now timeLimit =
     (if Before dueDate timeLimit then
        (let daysUntil = goInt (Hours (Sub dueDate now) / 24)
         in if daysUntil \<le> 1 then 25 else if daysUntil \<le> 3 then 15 else if daysUntil \<le> 7 then 10 else 0)
      else 0)"

lemma dueSoonBonus_range: "0 \<le> dueSoonBonus d now tlim \<and> dueSoonBonus d now tlim \<le> 25"
  by (simp add: dueSoonBonus_def Let_def)

lemma dueSoonBonus_mono:
  assumes "unixNano d2 \<le> unixNano d1" "unixNano now \<le> unixNano now'" "unixNano tlim \<le> unixNano tlim'"
  shows "dueSoonBonus d1 now tlim \<le> dueSoonBonus d2 now' tlim'"
proof -
  have b: "Before d1 tlim \<Longrightarrow> Before d2 tlim'" using assms by (simp add: Before_def)
  have m: "goInt (Hours (Sub d2 now') / 24) \<le> goInt (Hours (Sub d1 now) / 24)"
    using assms by (simp add: daysUntil_mono)
  show ?thesis
    using b m by (auto simp: dueSoonBonus_def Let_def)
qed

definition priorityBonus :: "string \<Rightarrow> int" where
  "priorityBonus p = (if p = ''urgent'' then 25 else if p = ''high'' then 15 else if p = ''normal'' then 5 else 0)"

definition overdueBonus :: "int option \<Rightarrow> int" where
  "overdueBonus days =
     (case days of None \<Rightarrow> 0
      | Some d \<Rightarrow> if negInt64 d > 7 then 30 else if negInt64 d > 3 then 20 else 10)"

lemma calculateUrgencyScore_sum:
  "calculateUrgencyScore task now tlim =
     (if Due (Dates task) \<noteq> '''' then 20 else 0)
     + (if IsOverdue task then 40 + overdueBonus (DaysUntilDue task)
        else if Due (Dates task) \<noteq> '''' then
          (case parseDateTime (Due (Dates task)) of None \<Rightarrow> 0 | Some d \<Rightarrow> dueSoonBonus d now tlim)
        else 0)
     + priorityBonus (Priority task)
     + (if Assignee task = None then 15 else 0)"
  by (simp add: calculateUrgencyScore_def Let_def dueSoonBonus_def priorityBonus_def overdueBonus_def
      split: option.splits)

lemma parseDateTime_empty: "parseDateTime '''' = None"
  by (simp add: parseDateTime_def getDate_def getYear_def)

lemma overdueBonus_mono:
  "n' \<le> n \<Longrightarrow> - 9223372036854775808 < n' \<Longrightarrow> overdueBonus (Some n) \<le> overdueBonus (Some n')"
  by (simp add: overdueBonus_def negInt64_def)

text \<open>
  Claim C7. For any task that is not overdue, the variant that is overdue by 10 days
  (flag set, days-until-due -10, any due date) has a strictly greater score. The score
  does not decrease along the priority tiers low, normal, high, urgent; when the
  assignee is removed; when a task without due date gets one; when the due date moves
  earlier; when the clock and the time limit move later; and when an overdue task gets
  more days overdue (for every days-until-due above the least 64-bit integer, whose
  negation wraps; the Collector produces none below -106751).
\<close>

theorem C7_urgency_monotone:
  "(\<not> IsOverdue t \<longrightarrow>
      calculateUrgencyScore t now tlim
        < calculateUrgencyScore
            (t\<lparr>IsOverdue := True, DaysUntilDue := Some (- 10), Dates := (Dates t)\<lparr>Due := due'\<rparr>\<rparr>) now tlim)
   \<and> calculateUrgencyScore (t\<lparr>Priority := ''low''\<rparr>) now tlim
        \<le> calculateUrgencyScore (t\<lparr>Priority := ''normal''\<rparr>) now tlim
   \<and> calculateUrgencyScore (t\<lparr>Priority := ''normal''\<rparr>) now tlim
        \<le> calculateUrgencyScore (t\<lparr>Priority := ''high''\<rparr>) now tlim
   \<and> calculateUrgencyScore (t\<lparr>Priority := ''high''\<rparr>) now tlim
        \<le> calculateUrgencyScore (t\<lparr>Priority := ''urgent''\<rparr>) now tlim
   \<and> calculateUrgencyScore (t\<lparr>Assignee := Some u\<rparr>) now tlim
        \<le> calculateUrgencyScore (t\<lparr>Assignee := None\<rparr>) now tlim
   \<and> (Due (Dates t) = '''' \<longrightarrow>
        calculateUrgencyScore t now tlim
          \<le> calculateUrgencyScore (t\<lparr>Dates := (Dates t)\<lparr>Due := s\<rparr>\<rparr>) now tlim)
   \<and> (parseDateTime (Due (Dates t)) = Some d1 \<and> parseDateTime s2 = Some d2 \<and> unixNano d2 \<le> unixNano d1 \<longrightarrow>
        calculateUrgencyScore t now tlim
          \<le> calculateUrgencyScore (t\<lparr>Dates := (Dates t)\<lparr>Due := s2\<rparr>\<rparr>) now tlim)
   \<and> (unixNano now \<le> unixNano now' \<and> unixNano tlim \<le> unixNano tlim' \<longrightarrow>
        calculateUrgencyScore t now tlim \<le> calculateUrgencyScore t now' tlim')
   \<and> (IsOverdue t \<and> DaysUntilDue t = Some n \<and> n' \<le> n \<and> - 9223372036854775808 < n' \<longrightarrow>
        calculateUrgencyScore t now tlim
          \<le> calculateUrgencyScore (t\<lparr>DaysUntilDue := Some n'\<rparr>) now tlim)"
proof -
  have r: "\<And>d. 0 \<le> dueSoonBonus d now tlim \<and> dueSoonBonus d now tlim \<le> 25"
    by (rule dueSoonBonus_range)
  have a: "\<not> IsOverdue t \<longrightarrow>
      calculateUrgencyScore t now tlim
        < calculateUrgencyScore
            (t\<lparr>IsOverdue := True, DaysUntilDue := Some (- 10), Dates := (Dates t)\<lparr>Due := due'\<rparr>\<rparr>) now tlim"
  proof -
    have r': "dueSoonBonus d now tlim < 50" for d
      by (simp add: dueSoonBonus_def Let_def)
    have r'': "dueSoonBonus d now tlim < 70" for d
      by (simp add: dueSoonBonus_def Let_def)
    show ?thesis
      by (auto simp: calculateUrgencyScore_sum overdueBonus_def negInt64_def r' r'' split: option.splits)
  qed
  have b: "calculateUrgencyScore (t\<lparr>Priority := ''low''\<rparr>) now tlim
        \<le> calculateUrgencyScore (t\<lparr>Priority := ''normal''\<rparr>) now tlim"
    "calculateUrgencyScore (t\<lparr>Priority := ''normal''\<rparr>) now tlim
        \<le> calculateUrgencyScore (t\<lparr>Priority := ''high''\<rparr>) now tlim"
    "calculateUrgencyScore (t\<lparr>Priority := ''high''\<rparr>) now tlim
        \<le> calculateUrgencyScore (t\<lparr>Priority := ''urgent''\<rparr>) now tlim"
    by (simp_all add: calculateUrgencyScore_sum priorityBonus_def)
  have c: "calculateUrgencyScore (t\<lparr>Assignee := Some u\<rparr>) now tlim
        \<le> calculateUrgencyScore (t\<lparr>Assignee := None\<rparr>) now tlim"
    by (simp add: calculateUrgencyScore_sum)
  have d: "Due (Dates t) = '''' \<longrightarrow>
        calculateUrgencyScore t now tlim
          \<le> calculateUrgencyScore (t\<lparr>Dates := (Dates t)\<lparr>Due := s\<rparr>\<rparr>) now tlim"
    using r by (auto simp: calculateUrgencyScore_sum split: option.splits)
  have e: "parseDateTime (Due (Dates t)) = Some d1 \<and> parseDateTime s2 = Some d2 \<and> unixNano d2 \<le> unixNano d1 \<longrightarrow>
        calculateUrgencyScore t now tlim
          \<le> calculateUrgencyScore (t\<lparr>Dates := (Dates t)\<lparr>Due := s2\<rparr>\<rparr>) now tlim"
    using dueSoonBonus_mono[of d2 d1 now now tlim tlim] parseDateTime_empty
    by (auto simp: calculateUrgencyScore_sum)
  have f: "unixNano now \<le> unixNano now' \<and> unixNano tlim \<le> unixNano tlim' \<longrightarrow>
        calculateUrgencyScore t now tlim \<le> calculateUrgencyScore t now' tlim'"
    using dueSoonBonus_mono[of _ _ now now' tlim tlim']
    by (auto simp: calculateUrgencyScore_sum split: option.splits)
  have g: "IsOverdue t \<and> DaysUntilDue t = Some n \<and> n' \<le> n \<and> - 9223372036854775808 < n' \<longrightarrow>
        calculateUrgencyScore t now tlim
          \<le> calculateUrgencyScore (t\<lparr>DaysUntilDue := Some n'\<rparr>) now tlim"
    using overdueBonus_mono[of n' n] by (auto simp: calculateUrgencyScore_sum)
  from a b c d e f g show ?thesis by blast
qed

lemma parse_sample_later:
  "parseDateTime ''2024-01-05T00:00:00Z'' = Some \<lparr>unixNano = 1704412800000000000, zoneOffset = 0\<rparr>"
  by code_simp

theorem C7_urgency_monotone_witness:
  "calculateUrgencyScore sampleTask \<lparr>unixNano = 1704070800000000000, zoneOffset = 0\<rparr>
       \<lparr>unixNano = 1704675600000000000, zoneOffset = 0\<rparr>
     < calculateUrgencyScore
         (sampleTask\<lparr>IsOverdue := True, DaysUntilDue := Some (- 10),
                      Dates := (Dates sampleTask)\<lparr>Due := ''2023-12-22T01:00:00Z''\<rparr>\<rparr>)
         \<lparr>unixNano = 1704070800000000000, zoneOffset = 0\<rparr>
         \<lparr>unixNano = 1704675600000000000, zoneOffset = 0\<rparr>
   \<and> calculateUrgencyScore sampleTask \<lparr>unixNano = 1704070800000000000, zoneOffset = 0\<rparr>
         \<lparr>unixNano = 1704675600000000000, zoneOffset = 0\<rparr>
     \<le> calculateUrgencyScore (sampleTask\<lparr>Dates := (Dates sampleTask)\<lparr>Due := ''2024-01-05T00:00:00Z''\<rparr>\<rparr>)
         \<lparr>unixNano = 1704070800000000000, zoneOffset = 0\<rparr>
         \<lparr>unixNano = 1704675600000000000, zoneOffset = 0\<rparr>
   \<and> calculateUrgencyScore (sampleTask\<lparr>Dates := (Dates sampleTask)\<lparr>Due := ''2024-01-05T00:00:00Z''\<rparr>\<rparr>)
         \<lparr>unixNano = 1704070800000000000, zoneOffset = 0\<rparr>
         \<lparr>unixNano = 1704675600000000000, zoneOffset = 0\<rparr>
     \<le> calculateUrgencyScore (sampleTask\<lparr>Dates := (Dates sampleTask)\<lparr>Due := ''2024-01-01T00:00:00Z''\<rparr>\<rparr>)
         \<lparr>unixNano = 1704070800000000000, zoneOffset = 0\<rparr>
         \<lparr>unixNano = 1704675600000000000, zoneOffset = 0\<rparr>
   \<and> calculateUrgencyScore (sampleTask\<lparr>IsOverdue := True, DaysUntilDue := Some (- 2)\<rparr>)
         \<lparr>unixNano = 1704070800000000000, zoneOffset = 0\<rparr>
         \<lparr>unixNano = 1704675600000000000, zoneOffset = 0\<rparr>
     \<le> calculateUrgencyScore (sampleTask\<lparr>IsOverdue := True, DaysUntilDue := Some (- 10)\<rparr>)
         \<lparr>unixNano = 1704070800000000000, zoneOffset = 0\<rparr>
         \<lparr>unixNano = 1704675600000000000, zoneOffset = 0\<rparr>"
  using
    C7_urgency_monotone [of sampleTask "\<lparr>unixNano = 1704070800000000000, zoneOffset = 0\<rparr>"
      "\<lparr>unixNano = 1704675600000000000, zoneOffset = 0\<rparr>" "''2023-12-22T01:00:00Z''" undefined
      "''2024-01-05T00:00:00Z''" undefined undefined undefined
      "\<lparr>unixNano = 1704070800000000000, zoneOffset = 0\<rparr>"
      "\<lparr>unixNano = 1704675600000000000, zoneOffset = 0\<rparr>" 0 0]
    C7_urgency_monotone [of "sampleTask\<lparr>Dates := (Dates sampleTask)\<lparr>Due := ''2024-01-05T00:00:00Z''\<rparr>\<rparr>"
      "\<lparr>unixNano = 1704070800000000000, zoneOffset = 0\<rparr>"
      "\<lparr>unixNano = 1704675600000000000, zoneOffset = 0\<rparr>" "''''" undefined "''''"
      "\<lparr>unixNano = 1704412800000000000, zoneOffset = 0\<rparr>" "''2024-01-01T00:00:00Z''"
      "\<lparr>unixNano = 1704067200000000000, zoneOffset = 0\<rparr>"
      "\<lparr>unixNano = 1704070800000000000, zoneOffset = 0\<rparr>"
      "\<lparr>unixNano = 1704675600000000000, zoneOffset = 0\<rparr>" 0 0]
    C7_urgency_monotone [of "sampleTask\<lparr>IsOverdue := True, DaysUntilDue := Some (- 2)\<rparr>"
      "\<lparr>unixNano = 1704070800000000000, zoneOffset = 0\<rparr>"
      "\<lparr>unixNano = 1704675600000000000, zoneOffset = 0\<rparr>" "''''" undefined "''''"
      undefined "''''" undefined
      "\<lparr>unixNano = 1704070800000000000, zoneOffset = 0\<rparr>"
      "\<lparr>unixNano = 1704675600000000000, zoneOffset = 0\<rparr>" "- 2" "- 10"]
    parse_sample_later parse_sample_due
  by (simp add: sampleTask_def)

section \<open>Properties of the cycle-time analysis\<close>

lemma cycleDaysOf_doneTask: "cycleDaysOf doneTask = Some 4"
proof -
  have c: "AnalyticsHandler_isTaskCompleted doneTask"
    by (simp add: AnalyticsHandler_isTaskCompleted_iff doneTask_def)
  have h: "Hours (Sub \<lparr>unixNano = 1704412800000000000, zoneOffset = 0\<rparr>
                     \<lparr>unixNano = 1704067200000000000, zoneOffset = 0\<rparr>) / 24 = 4"
    by (simp add: Hours_def Sub_def minDuration_def maxDuration_def)
  show ?thesis
    using c by (simp add: cycleDaysOf_def doneTask_def parse_sample_due parse_sample_later h)
qed

text \<open>
  Claim C8, at a single completed task of project Alpha in column Done with a cycle time
  of four days: the metric of its group carries the literal labels \<open>Project\<close> and
  \<open>Column\<close>, not the names Alpha and Done of the group.
\<close>

theorem C8_cycle_time_labels:
  "analyseCycleTime [doneTask] =
     [\<lparr>MetricColumn = ''Column'', MetricProject = ''Project'', AvgDays = 4, MinDays = 4,
       MaxDays = 4, TaskCount = 1, Efficiency = ''Good''\<rparr>]
   \<and> ProjectName (Project doneTask) = ''Alpha'' \<and> Column (Status doneTask) = ''Done''"
proof -
  have m: "collectCycleTimes [doneTask] = [(cycleKey doneTask, [4])]"
    by (simp add: collectCycleTimes_def cycleDaysOf_doneTask)
  have "analyseCycleTime [doneTask] = [cycleTimeMetric (cycleKey doneTask) [4]]"
    by (simp add: analyseCycleTime_def m sort_Slice_single)
  moreover have "cycleTimeMetric (cycleKey doneTask) [4] =
     \<lparr>MetricColumn = ''Column'', MetricProject = ''Project'', AvgDays = 4, MinDays = 4,
       MaxDays = 4, TaskCount = 1, Efficiency = ''Good''\<rparr>"
    by (simp add: cycleTimeMetric_def cycleKey_def calculateAverage_def calculateMin_def calculateMax_def Let_def)
  ultimately show ?thesis by (simp add: doneTask_def sampleTask_def)
qed


end
